theory Spec2Isabelle
  imports Complex_Main
begin

section \<open>Values of the host language and of the document store\<close>

text \<open>
  A JavaScript number is a double: a finite value, which is a rational number, or one of
  \<open>NaN\<close>, \<open>Infinity\<close>, \<open>-Infinity\<close>.  Only \<open>Number.isFinite\<close> and equality are used on
  numbers by the code below.
\<close>

datatype number = Fin rat | NaN | PosInf | NegInf

text \<open>
  A JavaScript value as the compiler sees it: parameter values, filter documents, pipeline
  stages.  An object is the list of its own enumerable properties in the order in which
  the engine enumerates them.  \<open>JFunction name\<close> is a built-in function of the engine,
  known by its name only.
\<close>

datatype json =
    JUndefined
  | JNull
  | JBool bool
  | JNum number
  | JStr string
  | JArr "json list"
  | JObj "(string \<times> json) list"
  | JFunction string

text \<open>
  What a plain object inherits from \<open>Object.prototype\<close>: a property read \<open>obj[name]\<close>
  that finds no own property finds these.  \<open>__proto__\<close> reads the prototype itself, an
  object without enumerable properties.
\<close>

definition objectPrototype :: "string \<rightharpoonup> json" where
  "objectPrototype =
     map_of [(''constructor'', JFunction ''Object''),
             (''__defineGetter__'', JFunction ''__defineGetter__''),
             (''__defineSetter__'', JFunction ''__defineSetter__''),
             (''hasOwnProperty'', JFunction ''hasOwnProperty''),
             (''__lookupGetter__'', JFunction ''__lookupGetter__''),
             (''__lookupSetter__'', JFunction ''__lookupSetter__''),
             (''isPrototypeOf'', JFunction ''isPrototypeOf''),
             (''propertyIsEnumerable'', JFunction ''propertyIsEnumerable''),
             (''toString'', JFunction ''toString''),
             (''valueOf'', JFunction ''valueOf''),
             (''toLocaleString'', JFunction ''toLocaleString''),
             (''__proto__'', JObj [])]"

text \<open>\<open>obj[name]\<close> on a plain object whose own properties are \<open>own\<close>; \<open>None\<close> is \<open>undefined\<close>.\<close>

definition getProperty :: "(string \<rightharpoonup> json) \<Rightarrow> string \<Rightarrow> json option" where
  "getProperty own name = (case own name of Some v \<Rightarrow> Some v | None \<Rightarrow> objectPrototype name)"

text \<open>
  \<open>obj[key] = v\<close> on a plain object.  The key \<open>__proto__\<close> is the accessor inherited from
  \<open>Object.prototype\<close>: the assignment adds no own property.  An existing key keeps its
  place and takes the new value.  A new key that is an array index (the canonical decimal
  text of an integer below \<open>2^32 - 1\<close>) is enumerated before the keys that are not, in
  ascending order of the index; any other new key is appended.
\<close>

definition indexValue :: "string \<Rightarrow> nat" where
  "indexValue k = foldl (\<lambda>a c. 10 * a + (of_char c - 48)) 0 k"

definition isArrayIndex :: "string \<Rightarrow> bool" where
  "isArrayIndex k =
     (k \<noteq> [] \<and> list_all (\<lambda>c. c \<in> set ''0123456789'') k \<and> (k = ''0'' \<or> hd k \<noteq> CHR ''0'')
      \<and> indexValue k < 4294967295)"

fun objInsertIndex :: "(string \<times> json) list \<Rightarrow> string \<Rightarrow> json \<Rightarrow> (string \<times> json) list" where
  "objInsertIndex [] k v = [(k, v)]"
| "objInsertIndex ((k', v') # kvs) k v =
     (if isArrayIndex k' \<and> indexValue k' < indexValue k then (k', v') # objInsertIndex kvs k v
      else (k, v) # (k', v') # kvs)"

definition objSet :: "(string \<times> json) list \<Rightarrow> string \<Rightarrow> json \<Rightarrow> (string \<times> json) list" where
  "objSet obj k v =
     (if k = ''__proto__'' then obj
      else if k \<in> set (map fst obj) then map (\<lambda>(k', v'). if k' = k then (k', v) else (k', v')) obj
      else if isArrayIndex k then objInsertIndex obj k v
      else obj @ [(k, v)])"

text \<open>Every \<open>throw new Error(msg)\<close> of the source; \<open>TypeError\<close> is what the engine raises on
  a property read of \<open>undefined\<close>.  \<open>OutOfFuel\<close> is not an error of the program: it is the
  result of the parser model when the recursion bound it is given is too small.\<close>

datatype error = Error string | TypeError string | OutOfFuel

section \<open>The abstract syntax tree\<close>

text \<open>
  The string-tagged objects built by the parser.  \<open>Field\<close> carries \<open>table\<close>, \<open>name\<close> and
  \<open>alias\<close> (\<open>projectKey\<close> reads \<open>f.alias\<close>, which no parser production sets).
  \<open>Param\<close> with \<open>mode: 'pos'\<close> is \<open>ParamPos\<close>, with \<open>mode: 'named'\<close> it is \<open>ParamNamed name\<close>.
  \<open>NullKind\<close> is the untagged object \<open>{ kind: 'NULL' }\<close> on the right of \<open>IS [NOT] NULL\<close>.
\<close>

datatype expr =
    Field "string option" string "string option"
  | Number number
  | String string
  | Boolean bool
  | Null
  | ParamPos
  | ParamNamed string
  | Array "expr list"
  | Between expr expr
  | Binary string expr expr
  | Unary string expr
  | Call string "expr list"
  | All
  | NullKind

fun expr_type :: "expr \<Rightarrow> string option" where
  "expr_type (Field _ _ _) = Some ''Field''"
| "expr_type (Number _) = Some ''Number''"
| "expr_type (String _) = Some ''String''"
| "expr_type (Boolean _) = Some ''Boolean''"
| "expr_type Null = Some ''Null''"
| "expr_type ParamPos = Some ''Param''"
| "expr_type (ParamNamed _) = Some ''Param''"
| "expr_type (Array _) = Some ''Array''"
| "expr_type (Between _ _) = Some ''Between''"
| "expr_type (Binary _ _ _) = Some ''Binary''"
| "expr_type (Unary _ _) = Some ''Unary''"
| "expr_type (Call _ _) = Some ''Call''"
| "expr_type All = Some ''All''"
| "expr_type NullKind = None"

text \<open>\<open>node.from\<close> and \<open>node.to\<close>: \<open>undefined\<close> on every node but \<open>Between\<close>.\<close>

fun expr_from :: "expr \<Rightarrow> expr option" where
  "expr_from (Between a b) = Some a"
| "expr_from _ = None"

fun expr_to :: "expr \<Rightarrow> expr option" where
  "expr_to (Between a b) = Some b"
| "expr_to _ = None"

section \<open>Parameter binding\<close>

record param_binder =
  named :: "string \<rightharpoonup> json"
  positional :: "json list"
  posIndex :: nat

definition ParamBinder :: "(string \<rightharpoonup> json) \<Rightarrow> json list \<Rightarrow> param_binder" where
  "ParamBinder nm ps = \<lparr>named = nm, positional = ps, posIndex = 0\<rparr>"

text \<open>
  \<open>bindValue\<close> threads the binder, whose cursor \<open>posIndex\<close> it advances.  \<open>named\<close> holds
  the own properties of the parameter object, a plain object: \<open>this.named[node.name]\<close>
  also finds what the object inherits.  A named parameter whose value is \<open>undefined\<close> is
  missing, like an absent one.  The \<open>default\<close> branch (\<open>node.value ?? null\<close>) is reached by
  the nodes that have no \<open>value\<close> property.
\<close>

fun bindValue :: "param_binder \<Rightarrow> expr \<Rightarrow> error + (json \<times> param_binder)"
  and bindValues :: "param_binder \<Rightarrow> expr list \<Rightarrow> error + (json list \<times> param_binder)" where
  "bindValue b ParamPos =
     (if posIndex b \<ge> length (positional b) then Inl (Error ''Not enough positional params'')
      else Inr (positional b ! posIndex b, b\<lparr>posIndex := posIndex b + 1\<rparr>))"
| "bindValue b (ParamNamed name) =
     (case getProperty (named b) name of
        None \<Rightarrow> Inl (Error (''Missing named param :'' @ name))
      | Some JUndefined \<Rightarrow> Inl (Error (''Missing named param :'' @ name))
      | Some v \<Rightarrow> Inr (v, b))"
| "bindValue b (Number n) = Inr (JNum n, b)"
| "bindValue b (String s) = Inr (JStr s, b)"
| "bindValue b (Boolean v) = Inr (JBool v, b)"
| "bindValue b Null = Inr (JNull, b)"
| "bindValue b (Array vals) =
     (case bindValues b vals of Inl e \<Rightarrow> Inl e | Inr (vs, b') \<Rightarrow> Inr (JArr vs, b'))"
| "bindValue b (Between a c) =
     (case bindValue b a of
        Inl e \<Rightarrow> Inl e
      | Inr (va, b1) \<Rightarrow>
          (case bindValue b1 c of
             Inl e \<Rightarrow> Inl e
           | Inr (vc, b2) \<Rightarrow> Inr (JObj [(''from'', va), (''to'', vc)], b2)))"
| "bindValue b (Field _ _ _) = Inr (JNull, b)"
| "bindValue b (Binary _ _ _) = Inr (JNull, b)"
| "bindValue b (Unary _ _) = Inr (JNull, b)"
| "bindValue b (Call _ _) = Inr (JNull, b)"
| "bindValue b All = Inr (JNull, b)"
| "bindValue b NullKind = Inr (JNull, b)"
| "bindValues b [] = Inr ([], b)"
| "bindValues b (v # vs) =
     (case bindValue b v of
        Inl e \<Rightarrow> Inl e
      | Inr (x, b1) \<Rightarrow>
          (case bindValues b1 vs of
             Inl e \<Rightarrow> Inl e
           | Inr (xs, b2) \<Rightarrow> Inr (x # xs, b2)))"

text \<open>\<open>binder.bindValue(node)\<close> where \<open>node\<close> may be \<open>undefined\<close>: \<open>if (!node) return null\<close>.\<close>

definition bindValueOpt :: "param_binder \<Rightarrow> expr option \<Rightarrow> error + (json \<times> param_binder)" where
  "bindValueOpt b node = (case node of None \<Rightarrow> Inr (JNull, b) | Some n \<Rightarrow> bindValue b n)"

section \<open>Strings of the host language\<close>

text \<open>
  Strings are modelled over 8-bit characters.  \<open>toUpperCase\<close> and \<open>toLowerCase\<close> map the
  letters \<open>a\<close> to \<open>z\<close> and \<open>A\<close> to \<open>Z\<close>, which is what they do on the identifiers the
  tokenizer produces (letters, digits, \<open>_\<close> and \<open>$\<close>).
\<close>

definition lowerLetters :: string where
  "lowerLetters = ''abcdefghijklmnopqrstuvwxyz''"

definition upperLetters :: string where
  "upperLetters = ''ABCDEFGHIJKLMNOPQRSTUVWXYZ''"

definition upperChar :: "char \<Rightarrow> char" where
  "upperChar c = (case map_of (zip lowerLetters upperLetters) c of Some u \<Rightarrow> u | None \<Rightarrow> c)"

definition lowerChar :: "char \<Rightarrow> char" where
  "lowerChar c = (case map_of (zip upperLetters lowerLetters) c of Some u \<Rightarrow> u | None \<Rightarrow> c)"

definition toUpperCase :: "string \<Rightarrow> string" where
  "toUpperCase s = map upperChar s"

definition toLowerCase :: "string \<Rightarrow> string" where
  "toLowerCase s = map lowerChar s"

text \<open>\<open>a || b\<close> on an optional string: \<open>undefined\<close>, \<open>null\<close> and the empty string are falsy.\<close>

definition orElse :: "string option \<Rightarrow> string \<Rightarrow> string" where
  "orElse a d = (case a of None \<Rightarrow> d | Some s \<Rightarrow> if s = [] then d else s)"

text \<open>\<open>xs.join(sep)\<close> on strings.\<close>

fun joinWith :: "string \<Rightarrow> string list \<Rightarrow> string" where
  "joinWith sep [] = []"
| "joinWith sep [x] = x"
| "joinWith sep (x # y # ys) = x @ sep @ joinWith sep (y # ys)"

text \<open>
  \<open>String(v)\<close>.  The decimal rendering of a double is the engine's; it is the parameter
  \<open>numToString\<close>.  An array is joined with commas, \<open>null\<close> and \<open>undefined\<close> elements
  rendering as the empty string; a plain object renders as \<open>[object Object]\<close> and a
  built-in function as \<open>function name() { [native code] }\<close>.
\<close>

fun toStr :: "(number \<Rightarrow> string) \<Rightarrow> json \<Rightarrow> string" where
  "toStr numToString JUndefined = ''undefined''"
| "toStr numToString JNull = ''null''"
| "toStr numToString (JBool v) = (if v then ''true'' else ''false'')"
| "toStr numToString (JNum n) = numToString n"
| "toStr numToString (JStr s) = s"
| "toStr numToString (JArr vs) =
     joinWith '','' (map (\<lambda>v. if v = JNull \<or> v = JUndefined then [] else toStr numToString v) vs)"
| "toStr numToString (JObj kvs) = ''[object Object]''"
| "toStr numToString (JFunction name) = ''function '' @ name @ ''() { [native code] }''"

section \<open>Utilities\<close>

text \<open>\<open>pattern.replace(/[.*+?^${}()|[\]\\]/g, r => `\\${r}`)\<close>: a backslash before each of
  the fourteen characters of the class.\<close>

definition regexMeta :: "char list" where
  "regexMeta = ''.*+?^${}()|[]'' @ [CHR 0x5C]"

definition escapeRegex :: "string \<Rightarrow> string" where
  "escapeRegex pattern = concat (map (\<lambda>c. if c \<in> set regexMeta then [CHR 0x5C, c] else [c]) pattern)"

text \<open>\<open>s.replace(/c/g, r)\<close> for a single character \<open>c\<close>.\<close>

definition replaceAll :: "char \<Rightarrow> string \<Rightarrow> string \<Rightarrow> string" where
  "replaceAll c r s = concat (map (\<lambda>x. if x = c then r else [x]) s)"

definition likeToRegex :: "string \<Rightarrow> json" where
  "likeToRegex pattern =
     (let escaped = escapeRegex pattern;
          re = ''^'' @ replaceAll (CHR ''_'') ''.'' (replaceAll (CHR ''%'') ''.*'' escaped) @ ''$''
      in JObj [(''$regex'', JStr re), (''$options'', JStr ''i'')])"

definition toArray :: "json \<Rightarrow> json list" where
  "toArray v = (case v of JArr vs \<Rightarrow> vs | _ \<Rightarrow> [v])"

definition isAggregate :: "string \<Rightarrow> bool" where
  "isAggregate name = (toUpperCase name \<in> set [''COUNT'', ''SUM'', ''AVG'', ''MIN'', ''MAX''])"

definition projectKey :: "expr \<Rightarrow> string" where
  "projectKey f = (case f of Field table name alias \<Rightarrow> orElse alias name | _ \<Rightarrow> ''expr'')"

definition exprAlias :: "expr \<Rightarrow> string" where
  "exprAlias e =
     (case e of
        Field table name alias \<Rightarrow> projectKey e
      | Call name args \<Rightarrow> toLowerCase name
      | All \<Rightarrow> ''*''
      | _ \<Rightarrow> ''expr'')"

record qualified_field =
  q_table :: string
  q_field :: string
  q_path :: string

text \<open>\<open>`${table}.${field}`.replace(/^[.]/, '')\<close> drops one leading dot.\<close>

definition dropLeadingDot :: "string \<Rightarrow> string" where
  "dropLeadingDot s = (case s of c # cs \<Rightarrow> if c = CHR ''.'' then cs else s | [] \<Rightarrow> s)"

definition qualifyField :: "expr \<Rightarrow> string \<Rightarrow> error + qualified_field" where
  "qualifyField f defaultTable =
     (case f of
        Field ftable name alias \<Rightarrow>
          (let table = orElse ftable defaultTable;
               field = name;
               path = (if table \<noteq> [] then dropLeadingDot (table @ ''.'' @ field) else field)
           in Inr \<lparr>q_table = table, q_field = field, q_path = path\<rparr>)
      | _ \<Rightarrow> Inl (Error ''Expected Field''))"

section \<open>Filter building\<close>

text \<open>
  \<open>buildMatch\<close> on a node; \<open>val\<close> is bound from the right operand before the operator is
  looked at, and the \<open>BETWEEN\<close> case binds \<open>right.from\<close> and \<open>right.to\<close> after that.
  The \<open>IS\<close> and \<open>IS NOT\<close> cases leave the \<open>switch\<close> when the right side is not the
  \<open>NULL\<close> marker and reach the \<open>throw\<close> after it.  A \<open>Unary\<close> node whose operator is not
  \<open>NOT\<close> leaves the outer \<open>switch\<close>: the function returns \<open>undefined\<close>.
\<close>

fun buildMatch :: "(number \<Rightarrow> string) \<Rightarrow> expr \<Rightarrow> param_binder \<Rightarrow> string \<Rightarrow> error + (json \<times> param_binder)" where
  "buildMatch ns (Binary op left right) b defaultTable =
     (if op = ''AND'' \<or> op = ''OR'' then
        (case buildMatch ns left b defaultTable of
           Inl e \<Rightarrow> Inl e
         | Inr (a, b1) \<Rightarrow>
             (case buildMatch ns right b1 defaultTable of
                Inl e \<Rightarrow> Inl e
              | Inr (c, b2) \<Rightarrow>
                  Inr (if op = ''AND'' then JObj [(''$and'', JArr [a, c])]
                       else JObj [(''$or'', JArr [a, c])], b2)))
      else if expr_type left = Some ''Field'' then
        (case qualifyField left defaultTable of
           Inl e \<Rightarrow> Inl e
         | Inr q \<Rightarrow>
             (let key = q_path q in
              case bindValue b right of
                Inl e \<Rightarrow> Inl e
              | Inr (val, b1) \<Rightarrow>
                  if op = ''='' then Inr (JObj [(key, val)], b1)
                  else if op = ''!='' \<or> op = ''<>'' then Inr (JObj [(key, JObj [(''$ne'', val)])], b1)
                  else if op = ''>'' then Inr (JObj [(key, JObj [(''$gt'', val)])], b1)
                  else if op = ''>='' then Inr (JObj [(key, JObj [(''$gte'', val)])], b1)
                  else if op = ''<'' then Inr (JObj [(key, JObj [(''$lt'', val)])], b1)
                  else if op = ''<='' then Inr (JObj [(key, JObj [(''$lte'', val)])], b1)
                  else if op = ''IN'' then Inr (JObj [(key, JObj [(''$in'', JArr (toArray val))])], b1)
                  else if op = ''NOT IN'' then Inr (JObj [(key, JObj [(''$nin'', JArr (toArray val))])], b1)
                  else if op = ''LIKE'' then Inr (JObj [(key, likeToRegex (toStr ns val))], b1)
                  else if op = ''IS'' then
                    (if right = NullKind then Inr (JObj [(key, JNull)], b1)
                     else Inl (Error ''Unsupported WHERE clause''))
                  else if op = ''IS NOT'' then
                    (if right = NullKind then Inr (JObj [(key, JObj [(''$ne'', JNull)])], b1)
                     else Inl (Error ''Unsupported WHERE clause''))
                  else if op = ''BETWEEN'' then
                    (case bindValueOpt b1 (expr_from right) of
                       Inl e \<Rightarrow> Inl e
                     | Inr (lo, b2) \<Rightarrow>
                         (case bindValueOpt b2 (expr_to right) of
                            Inl e \<Rightarrow> Inl e
                          | Inr (hi, b3) \<Rightarrow>
                              Inr (JObj [(key, JObj [(''$gte'', lo), (''$lte'', hi)])], b3)))
                  else Inl (Error (''Unsupported operator in WHERE: '' @ op))))
      else Inl (Error ''Unsupported WHERE clause''))"
| "buildMatch ns (Unary op e) b defaultTable =
     (if op = ''NOT'' then
        (case buildMatch ns e b defaultTable of
           Inl err \<Rightarrow> Inl err
         | Inr (inner, b1) \<Rightarrow> Inr (JObj [(''$nor'', JArr [inner])], b1))
      else Inr (JUndefined, b))"
| "buildMatch ns _ b defaultTable = Inl (Error ''Unsupported WHERE expression'')"

text \<open>The entry point with \<open>if (!expr) return {}\<close>: an absent \<open>WHERE\<close> is the empty filter.\<close>

definition buildMatchOpt :: "(number \<Rightarrow> string) \<Rightarrow> expr option \<Rightarrow> param_binder \<Rightarrow> string \<Rightarrow> error + (json \<times> param_binder)" where
  "buildMatchOpt ns expr b defaultTable =
     (case expr of None \<Rightarrow> Inr (JObj [], b) | Some e \<Rightarrow> buildMatch ns e b defaultTable)"

section \<open>Statements\<close>

record table_ref =
  t_name :: string
  t_alias :: "string option"

record join =
  j_type :: string
  j_table :: table_ref
  j_on :: "expr option"

record select_item =
  s_expr :: expr
  s_alias :: "string option"

record order_item =
  o_expr :: expr
  o_dir :: string

record select_ast =
  sel_columns :: "select_item list"
  sel_from :: table_ref
  sel_joins :: "join list"
  sel_where :: "expr option"
  sel_groupBy :: "expr list"
  sel_having :: "expr option"
  sel_orderBy :: "order_item list"
  sel_limit :: "number option"
  sel_offset :: "number option"

section \<open>Built-in SQL functions\<close>

text \<open>\<open>args[i]\<close>, \<open>undefined\<close> past the end.\<close>

definition arg :: "json list \<Rightarrow> nat \<Rightarrow> json" where
  "arg args i = (if i < length args then args ! i else JUndefined)"

type_synonym function_table = "string \<rightharpoonup> (json list \<Rightarrow> json)"

definition fn_LOWER :: "json list \<Rightarrow> json" where
  "fn_LOWER args = JObj [(''$toLower'', arg args 0)]"

definition fn_UPPER :: "json list \<Rightarrow> json" where
  "fn_UPPER args = JObj [(''$toUpper'', arg args 0)]"

definition fn_CONCAT :: "json list \<Rightarrow> json" where
  "fn_CONCAT args = JObj [(''$concat'', JArr args)]"

definition fn_COALESCE :: "json list \<Rightarrow> json" where
  "fn_COALESCE args =
     JObj [(''$ifNull'', JArr [arg args 0,
        (if arg args 1 = JUndefined \<or> arg args 1 = JNull then JNull else arg args 1)])]"

definition fn_ABS :: "json list \<Rightarrow> json" where
  "fn_ABS args = JObj [(''$abs'', arg args 0)]"

text \<open>\<open>([x, d]) => (d != null ? { $round: [x, d] } : { $round: ['$$_internal', 0] })\<close>;
  \<open>d != null\<close> is false for \<open>null\<close> and for \<open>undefined\<close>.\<close>

definition fn_ROUND :: "json list \<Rightarrow> json" where
  "fn_ROUND args =
     (let x = arg args 0; d = arg args 1 in
      if d \<noteq> JNull \<and> d \<noteq> JUndefined then JObj [(''$round'', JArr [x, d])]
      else JObj [(''$round'', JArr [JStr ''$$_internal'', JNum (Fin 0)])])"

definition buildBuiltinFunctions :: function_table where
  "buildBuiltinFunctions =
     map_of [(''LOWER'', fn_LOWER), (''UPPER'', fn_UPPER), (''CONCAT'', fn_CONCAT),
             (''COALESCE'', fn_COALESCE), (''ABS'', fn_ABS), (''ROUND'', fn_ROUND)]"

section \<open>Expression compiler\<close>

text \<open>
  \<open>functions\<close> is \<open>None\<close> where the caller passes no table (\<open>toMongoAgg\<close> does not): the
  lookup \<open>functions[...]\<close> of a \<open>Call\<close> then raises a \<open>TypeError\<close>.  The parameter \<open>joins\<close>
  is not read.
\<close>

definition typeName :: "expr \<Rightarrow> string" where
  "typeName e = (case expr_type e of Some t \<Rightarrow> t | None \<Rightarrow> ''undefined'')"

fun toMongoExpr :: "expr \<Rightarrow> table_ref \<Rightarrow> join list \<Rightarrow> param_binder \<Rightarrow> function_table option \<Rightarrow> error + (json \<times> param_binder)"
  and toMongoExprs :: "expr list \<Rightarrow> table_ref \<Rightarrow> join list \<Rightarrow> param_binder \<Rightarrow> function_table option \<Rightarrow> error + (json list \<times> param_binder)" where
  "toMongoExpr (Number n) main joins b fns = Inr (JNum n, b)"
| "toMongoExpr (String s) main joins b fns = Inr (JStr s, b)"
| "toMongoExpr (Boolean v) main joins b fns = Inr (JBool v, b)"
| "toMongoExpr ParamPos main joins b fns = bindValue b ParamPos"
| "toMongoExpr (ParamNamed n) main joins b fns = bindValue b (ParamNamed n)"
| "toMongoExpr (Field t n a) main joins b fns =
     (case qualifyField (Field t n a) (orElse (t_alias main) (t_name main)) of
        Inl e \<Rightarrow> Inl e
      | Inr q \<Rightarrow> Inr (JStr (''$'' @ q_path q), b))"
| "toMongoExpr All main joins b fns = Inr (JStr ''$$ROOT'', b)"
| "toMongoExpr (Call name args) main joins b fns =
     (case fns of
        None \<Rightarrow> Inl (TypeError ''Cannot read properties of undefined'')
      | Some table \<Rightarrow>
          (case table (toUpperCase name) of
             None \<Rightarrow> Inl (Error (''Unknown function: '' @ name))
           | Some fn \<Rightarrow>
               (case toMongoExprs args main joins b fns of
                  Inl e \<Rightarrow> Inl e
                | Inr (vs, b1) \<Rightarrow> Inr (fn vs, b1))))"
| "toMongoExpr (Binary op l r) main joins b fns =
     (case toMongoExpr l main joins b fns of
        Inl e \<Rightarrow> Inl e
      | Inr (left, b1) \<Rightarrow>
          (case toMongoExpr r main joins b1 fns of
             Inl e \<Rightarrow> Inl e
           | Inr (right, b2) \<Rightarrow>
               if op = ''+'' then Inr (JObj [(''$add'', JArr [left, right])], b2)
               else if op = ''-'' then Inr (JObj [(''$subtract'', JArr [left, right])], b2)
               else if op = ''*'' then Inr (JObj [(''$multiply'', JArr [left, right])], b2)
               else if op = ''/'' then Inr (JObj [(''$divide'', JArr [left, right])], b2)
               else Inl (Error (''Unsupported binary op in projection: '' @ op))))"
| "toMongoExpr Null main joins b fns = Inl (Error (''Unsupported expression in projection: '' @ typeName Null))"
| "toMongoExpr (Array vs) main joins b fns = Inl (Error (''Unsupported expression in projection: '' @ typeName (Array vs)))"
| "toMongoExpr (Between x y) main joins b fns = Inl (Error (''Unsupported expression in projection: '' @ typeName (Between x y)))"
| "toMongoExpr (Unary op x) main joins b fns = Inl (Error (''Unsupported expression in projection: '' @ typeName (Unary op x)))"
| "toMongoExpr NullKind main joins b fns = Inl (Error (''Unsupported expression in projection: '' @ typeName NullKind))"
| "toMongoExprs [] main joins b fns = Inr ([], b)"
| "toMongoExprs (a # as) main joins b fns =
     (case toMongoExpr a main joins b fns of
        Inl e \<Rightarrow> Inl e
      | Inr (v, b1) \<Rightarrow>
          (case toMongoExprs as main joins b1 fns of
             Inl e \<Rightarrow> Inl e
           | Inr (vs, b2) \<Rightarrow> Inr (v # vs, b2)))"

text \<open>
  \<open>toMongoAgg\<close> passes four arguments to \<open>toMongoExpr\<close>: no function table.  \<open>arg\<close> is
  \<open>callExpr.args[0]\<close>, \<open>undefined\<close> when the call has no argument; \<open>toMongoExpr\<close> on
  \<open>undefined\<close> raises a \<open>TypeError\<close> on \<open>expr.type\<close>.
\<close>

definition toMongoExprArg :: "expr option \<Rightarrow> table_ref \<Rightarrow> join list \<Rightarrow> param_binder \<Rightarrow> error + (json \<times> param_binder)" where
  "toMongoExprArg a main joins b =
     (case a of
        None \<Rightarrow> Inl (TypeError ''Cannot read properties of undefined'')
      | Some e \<Rightarrow> toMongoExpr e main joins b None)"

definition reducer :: "string \<Rightarrow> expr option \<Rightarrow> table_ref \<Rightarrow> join list \<Rightarrow> param_binder \<Rightarrow> error + (json \<times> param_binder)" where
  "reducer key a main joins b =
     (case toMongoExprArg a main joins b of
        Inl e \<Rightarrow> Inl e
      | Inr (v, b1) \<Rightarrow> Inr (JObj [(key, v)], b1))"

definition toMongoAgg :: "expr \<Rightarrow> table_ref \<Rightarrow> join list \<Rightarrow> param_binder \<Rightarrow> error + (json \<times> param_binder)" where
  "toMongoAgg callExpr main joins b =
     (case callExpr of
        Call cname args \<Rightarrow>
          (let name = toUpperCase cname;
               a = (case args of [] \<Rightarrow> None | x # _ \<Rightarrow> Some x)
           in if name = ''COUNT'' then
                (if a = None \<or> a = Some All then Inr (JObj [(''$sum'', JNum (Fin 1))], b)
                 else (case toMongoExprArg a main joins b of
                         Inl e \<Rightarrow> Inl e
                       | Inr (v, b1) \<Rightarrow>
                           Inr (JObj [(''$sum'',
                                  JObj [(''$cond'',
                                     JArr [JObj [(''$gt'', JArr [v, JNull])], JNum (Fin 1), JNum (Fin 0)])])], b1)))
              else if name = ''SUM'' then reducer ''$sum'' a main joins b
              else if name = ''AVG'' then reducer ''$avg'' a main joins b
              else if name = ''MIN'' then reducer ''$min'' a main joins b
              else if name = ''MAX'' then reducer ''$max'' a main joins b
              else Inl (Error (''Unsupported aggregate '' @ name)))
      | _ \<Rightarrow> Inl (TypeError ''Cannot read properties of undefined''))"

section \<open>HAVING\<close>

definition buildHaving :: "expr \<Rightarrow> param_binder \<Rightarrow> error + (json \<times> param_binder)" where
  "buildHaving expr b =
     (case expr of
        Binary op left right \<Rightarrow>
          (case bindValue b right of
             Inl e \<Rightarrow> Inl e
           | Inr (rightVal, b1) \<Rightarrow>
               (let key = (case left of
                             Call name args \<Rightarrow> toLowerCase name
                           | Field t n a \<Rightarrow> projectKey left
                           | _ \<Rightarrow> ''expr'');
                    field = key
                in if op = ''='' then Inr (JObj [(field, rightVal)], b1)
                   else if op = ''!='' \<or> op = ''<>'' then Inr (JObj [(field, JObj [(''$ne'', rightVal)])], b1)
                   else if op = ''>'' then Inr (JObj [(field, JObj [(''$gt'', rightVal)])], b1)
                   else if op = ''>='' then Inr (JObj [(field, JObj [(''$gte'', rightVal)])], b1)
                   else if op = ''<'' then Inr (JObj [(field, JObj [(''$lt'', rightVal)])], b1)
                   else if op = ''<='' then Inr (JObj [(field, JObj [(''$lte'', rightVal)])], b1)
                   else Inl (Error ''Unsupported HAVING operator'')))
      | _ \<Rightarrow> Inl (Error ''Unsupported HAVING''))"

section \<open>SELECT via aggregation\<close>

text \<open>
  The table registry maps the lower-cased table name to its entry; of an entry the
  compiler reads the collection.  \<open>_getCollection\<close> gives the handle
  \<open>db.collection(meta.collection)\<close>, which is identified here with the collection's name
  (its \<open>collectionName\<close>).
\<close>

record table_meta =
  m_name :: string
  m_collection :: string

definition getCollection :: "(string \<rightharpoonup> table_meta) \<Rightarrow> string \<Rightarrow> error + string" where
  "getCollection tables tableName =
     (case tables (toLowerCase tableName) of
        None \<Rightarrow> Inl (Error (''Unknown table: '' @ tableName))
      | Some meta \<Rightarrow> Inr (m_collection meta))"

text \<open>\<open>Number.isFinite(v)\<close> on a property that is a number or \<open>null\<close>.\<close>

definition Number_isFinite :: "number option \<Rightarrow> bool" where
  "Number_isFinite v = (case v of Some (Fin r) \<Rightarrow> True | _ \<Rightarrow> False)"

text \<open>The \<open>WHERE\<close> block: one \<open>$match\<close> stage when the clause is present.\<close>

definition whereStage :: "(number \<Rightarrow> string) \<Rightarrow> select_ast \<Rightarrow> param_binder \<Rightarrow> json list \<Rightarrow> error + (json list \<times> param_binder)" where
  "whereStage ns ast b pipeline =
     (case sel_where ast of
        None \<Rightarrow> Inr (pipeline, b)
      | Some w \<Rightarrow>
          (case buildMatch ns w b (orElse (t_alias (sel_from ast)) (t_name (sel_from ast))) of
             Inl e \<Rightarrow> Inl e
           | Inr (m, b1) \<Rightarrow> Inr (pipeline @ [JObj [(''$match'', m)]], b1)))"

text \<open>
  The \<open>JOINS\<close> loop.  A condition that is absent, or whose \<open>op\<close> is not \<open>=\<close>, is refused; so
  is a \<open>Binary\<close> one whose sides are not both fields.  A \<open>Unary\<close> node with operator \<open>=\<close>
  has no \<open>left\<close>: reading \<open>on.left.type\<close> raises a \<open>TypeError\<close>.
\<close>

definition joinAlias :: "join \<Rightarrow> string" where
  "joinAlias j = orElse (t_alias (j_table j)) (t_name (j_table j))"

fun execJoins :: "(string \<rightharpoonup> table_meta) \<Rightarrow> table_ref \<Rightarrow> join list \<Rightarrow> json list \<Rightarrow> error + json list" where
  "execJoins tables main [] pipeline = Inr pipeline"
| "execJoins tables main (j # js) pipeline =
     (if j_type j \<noteq> ''INNER'' \<and> j_type j \<noteq> ''LEFT'' then
        Inl (Error (''Unsupported JOIN type: '' @ j_type j))
      else
        (case j_on j of
           Some (Binary op left right) \<Rightarrow>
             if op \<noteq> ''='' \<or> expr_type left \<noteq> Some ''Field'' \<or> expr_type right \<noteq> Some ''Field'' then
               Inl (Error ''JOIN ... ON must be equality between two fields'')
             else
               (case qualifyField left (orElse (t_alias main) (t_name main)) of
                  Inl e \<Rightarrow> Inl e
                | Inr localField \<Rightarrow>
                    (case qualifyField right (joinAlias j) of
                       Inl e \<Rightarrow> Inl e
                     | Inr foreignField \<Rightarrow>
                         (case getCollection tables (t_name (j_table j)) of
                            Inl e \<Rightarrow> Inl e
                          | Inr collectionName \<Rightarrow>
                              (let lookup = JObj [(''$lookup'',
                                     JObj [(''from'', JStr collectionName),
                                           (''localField'', JStr (q_field localField)),
                                           (''foreignField'', JStr (q_field foreignField)),
                                           (''as'', JStr (joinAlias j))])];
                                   unwind = JObj [(''$unwind'',
                                     JObj [(''path'', JStr (''$'' @ joinAlias j)),
                                           (''preserveNullAndEmptyArrays'',
                                              JBool (if j_type j = ''INNER'' then False else True))])]
                               in execJoins tables main js (pipeline @ [lookup] @ [unwind])))))
         | Some (Unary op x) \<Rightarrow>
             if op \<noteq> ''='' then Inl (Error ''JOIN ... ON must be equality between two fields'')
             else Inl (TypeError ''Cannot read properties of undefined'')
         | _ \<Rightarrow> Inl (Error ''JOIN ... ON must be equality between two fields'')))"

text \<open>The loops of the \<open>GROUP BY\<close> block: the group key, the aggregates of the select
  list, and the two loops of the re-projection.\<close>

fun groupIds :: "expr list \<Rightarrow> table_ref \<Rightarrow> join list \<Rightarrow> param_binder \<Rightarrow> function_table \<Rightarrow> (string \<times> json) list \<Rightarrow> error + ((string \<times> json) list \<times> param_binder)" where
  "groupIds [] main joins b fns idExpr = Inr (idExpr, b)"
| "groupIds (g # gs) main joins b fns idExpr =
     (case toMongoExpr g main joins b (Some fns) of
        Inl e \<Rightarrow> Inl e
      | Inr (v, b1) \<Rightarrow> groupIds gs main joins b1 fns (objSet idExpr (projectKey g) v))"

fun groupAggs :: "select_item list \<Rightarrow> table_ref \<Rightarrow> join list \<Rightarrow> param_binder \<Rightarrow> (string \<times> json) list \<Rightarrow> error + ((string \<times> json) list \<times> param_binder)" where
  "groupAggs [] main joins b grp = Inr (grp, b)"
| "groupAggs (sel # sels) main joins b grp =
     (case s_expr sel of
        Call name args \<Rightarrow>
          if isAggregate name then
            (let key = orElse (s_alias sel) (exprAlias (s_expr sel)) in
             case toMongoAgg (s_expr sel) main joins b of
               Inl e \<Rightarrow> Inl e
             | Inr (v, b1) \<Rightarrow> groupAggs sels main joins b1 (objSet grp key v))
          else groupAggs sels main joins b grp
      | _ \<Rightarrow> groupAggs sels main joins b grp)"

fun projectIds :: "string list \<Rightarrow> (string \<times> json) list \<Rightarrow> (string \<times> json) list" where
  "projectIds [] proj = proj"
| "projectIds (k # ks) proj = projectIds ks (objSet proj k (JStr (''$_id.'' @ k)))"

fun projectAggs :: "select_item list \<Rightarrow> (string \<times> json) list \<Rightarrow> (string \<times> json) list" where
  "projectAggs [] proj = proj"
| "projectAggs (sel # sels) proj =
     (case s_expr sel of
        Call name args \<Rightarrow>
          if isAggregate name then
            projectAggs sels (objSet proj (orElse (s_alias sel) (exprAlias (s_expr sel))) (JNum (Fin 1)))
          else projectAggs sels proj
      | _ \<Rightarrow> projectAggs sels proj)"

definition groupStages :: "function_table \<Rightarrow> select_ast \<Rightarrow> param_binder \<Rightarrow> json list \<Rightarrow> error + (json list \<times> param_binder)" where
  "groupStages fns ast b pipeline =
     (case groupIds (sel_groupBy ast) (sel_from ast) (sel_joins ast) b fns [] of
        Inl e \<Rightarrow> Inl e
      | Inr (idExpr, b1) \<Rightarrow>
          (case groupAggs (sel_columns ast) (sel_from ast) (sel_joins ast) b1 [(''_id'', JObj idExpr)] of
             Inl e \<Rightarrow> Inl e
           | Inr (grp, b2) \<Rightarrow>
               (let pipeline1 = pipeline @ [JObj [(''$group'', JObj grp)]];
                    project = JObj [(''$project'', JObj (projectAggs (sel_columns ast) (projectIds (map fst idExpr) [])))]
                in case sel_having ast of
                     None \<Rightarrow> Inr (pipeline1 @ [project], b2)
                   | Some h \<Rightarrow>
                       (case buildHaving h b2 of
                          Inl e \<Rightarrow> Inl e
                        | Inr (m, b3) \<Rightarrow> Inr (pipeline1 @ [JObj [(''$match'', m)]] @ [project], b3)))))"

text \<open>The branch without \<open>GROUP BY\<close>: no stage for the single wildcard, else one
  \<open>$project\<close> stage.\<close>

fun projectColumns :: "select_item list \<Rightarrow> table_ref \<Rightarrow> join list \<Rightarrow> param_binder \<Rightarrow> function_table \<Rightarrow> (string \<times> json) list \<Rightarrow> error + ((string \<times> json) list \<times> param_binder)" where
  "projectColumns [] main joins b fns proj = Inr (proj, b)"
| "projectColumns (sel # sels) main joins b fns proj =
     (let key = orElse (s_alias sel) (exprAlias (s_expr sel)) in
      case toMongoExpr (s_expr sel) main joins b (Some fns) of
        Inl e \<Rightarrow> Inl e
      | Inr (v, b1) \<Rightarrow> projectColumns sels main joins b1 fns (objSet proj key v))"

definition isSelectStar :: "select_item list \<Rightarrow> bool" where
  "isSelectStar columns = (length columns = 1 \<and> expr_type (s_expr (columns ! 0)) = Some ''All'')"

definition projectStage :: "function_table \<Rightarrow> select_ast \<Rightarrow> param_binder \<Rightarrow> json list \<Rightarrow> error + (json list \<times> param_binder)" where
  "projectStage fns ast b pipeline =
     (if isSelectStar (sel_columns ast) then Inr (pipeline, b)
      else
        (case projectColumns (sel_columns ast) (sel_from ast) (sel_joins ast) b fns [] of
           Inl e \<Rightarrow> Inl e
         | Inr (proj, b1) \<Rightarrow> Inr (pipeline @ [JObj [(''$project'', JObj proj)]], b1)))"

text \<open>\<open>ORDER BY\<close>, then \<open>OFFSET\<close> and \<open>LIMIT\<close>.\<close>

fun sortKeys :: "order_item list \<Rightarrow> (string \<times> json) list \<Rightarrow> (string \<times> json) list" where
  "sortKeys [] srt = srt"
| "sortKeys (ob # obs) srt =
     (let key = (if expr_type (o_expr ob) = Some ''Field'' then projectKey (o_expr ob) else exprAlias (o_expr ob))
      in sortKeys obs (objSet srt key (JNum (Fin (if o_dir ob = ''DESC'' then - 1 else 1)))))"

definition sortStage :: "select_ast \<Rightarrow> json list \<Rightarrow> json list" where
  "sortStage ast pipeline =
     (if sel_orderBy ast \<noteq> [] then pipeline @ [JObj [(''$sort'', JObj (sortKeys (sel_orderBy ast) []))]]
      else pipeline)"

definition pageStages :: "select_ast \<Rightarrow> json list \<Rightarrow> json list" where
  "pageStages ast pipeline =
     (let pipeline1 = (if Number_isFinite (sel_offset ast)
                       then pipeline @ [JObj [(''$skip'', JNum (the (sel_offset ast)))]] else pipeline)
      in if Number_isFinite (sel_limit ast)
         then pipeline1 @ [JObj [(''$limit'', JNum (the (sel_limit ast)))]] else pipeline1)"

text \<open>
  \<open>_execSelect\<close> up to the call \<open>col.aggregate(pipeline, opts)\<close>: the collection, the
  pipeline and the binder as the compilation leaves it.
\<close>

definition execSelect :: "(number \<Rightarrow> string) \<Rightarrow> (string \<rightharpoonup> table_meta) \<Rightarrow> function_table \<Rightarrow> select_ast \<Rightarrow> param_binder \<Rightarrow> error + (string \<times> json list \<times> param_binder)" where
  "execSelect ns tables fns ast b =
     (let main = sel_from ast in
      case getCollection tables (t_name main) of
        Inl e \<Rightarrow> Inl e
      | Inr col \<Rightarrow>
          (case whereStage ns ast b [] of
             Inl e \<Rightarrow> Inl e
           | Inr (p1, b1) \<Rightarrow>
               (case execJoins tables main (sel_joins ast) p1 of
                  Inl e \<Rightarrow> Inl e
                | Inr p2 \<Rightarrow>
                    (case (if sel_groupBy ast \<noteq> [] then groupStages fns ast b1 p2
                           else projectStage fns ast b1 p2) of
                       Inl e \<Rightarrow> Inl e
                     | Inr (p3, b2) \<Rightarrow> Inr (col, pageStages ast (sortStage ast p3), b2)))))"

section \<open>Tokenizer\<close>

datatype token =
    T_eof
  | T_string string
  | T_number string
  | T_ident string
  | T_param_named string
  | T_param_pos
  | T_op string

text \<open>The tokenizer object: the input, the position \<open>i\<close> and the peeked token;
  \<open>len\<close> is the length of the input.\<close>

record tokenizer =
  tk_input :: string
  tk_i :: nat
  tk_peeked :: "token option"

definition Tokenizer :: "string \<Rightarrow> tokenizer" where
  "Tokenizer inp = \<lparr>tk_input = inp, tk_i = 0, tk_peeked = None\<rparr>"

text \<open>The character classes \<open>/\s/\<close> (on 8-bit characters), \<open>/[A-Za-z_]/\<close>,
  \<open>/[A-Za-z0-9_$]/\<close> and \<open>/[0-9]/\<close>.\<close>

definition isSpace :: "char \<Rightarrow> bool" where
  "isSpace c = (c \<in> set [CHR 0x09, CHR 0x0A, CHR 0x0B, CHR 0x0C, CHR 0x0D, CHR 0x20, CHR 0xA0])"

definition isDigit :: "char \<Rightarrow> bool" where
  "isDigit c = (c \<in> set ''0123456789'')"

definition isIdentStart :: "char \<Rightarrow> bool" where
  "isIdentStart c = (c \<in> set lowerLetters \<or> c \<in> set upperLetters \<or> c = CHR ''_'')"

definition isIdent :: "char \<Rightarrow> bool" where
  "isIdent c = (c \<in> set lowerLetters \<or> c \<in> set upperLetters \<or> isDigit c \<or> c = CHR ''_'' \<or> c = CHR ''$'')"

text \<open>\<open>s[k]\<close>, \<open>undefined\<close> past the end, and \<open>s.slice(i, j)\<close>.\<close>

definition charAt :: "string \<Rightarrow> nat \<Rightarrow> char option" where
  "charAt s k = (if k < length s then Some (s ! k) else None)"

definition slice :: "string \<Rightarrow> nat \<Rightarrow> nat \<Rightarrow> string" where
  "slice s i j = take (j - i) (drop i s)"

text \<open>\<open>while (j < n && P(s[j])) j++\<close>.\<close>

function scanWhile :: "(char \<Rightarrow> bool) \<Rightarrow> string \<Rightarrow> nat \<Rightarrow> nat" where
  "scanWhile P s j = (if j < length s \<and> P (s ! j) then scanWhile P s (j + 1) else j)"
  by pat_completeness auto
termination
  by (relation "measure (\<lambda>(P, s, j). length s - j)") auto

text \<open>\<open>while (i < n && !(s[i] === '*' && s[i+1] === '/')) i++\<close>.\<close>

function skipBlock :: "string \<Rightarrow> nat \<Rightarrow> nat" where
  "skipBlock s i =
     (if i < length s \<and> \<not> (s ! i = CHR ''*'' \<and> charAt s (i + 1) = Some (CHR ''/''))
      then skipBlock s (i + 1) else i)"
  by pat_completeness auto
termination
  by (relation "measure (\<lambda>(s, i). length s - i)") auto

text \<open>
  The loop of a string literal, from the position after the opening quote.  After a
  backslash the next character is appended whatever it is; at the end of the input that
  character is \<open>undefined\<close>, and \<open>val += undefined\<close> appends the text \<open>undefined\<close>.
\<close>

function readString :: "string \<Rightarrow> char \<Rightarrow> nat \<Rightarrow> string \<Rightarrow> string \<times> nat" where
  "readString s quote i val =
     (if i < length s then
        (let ch = s ! i; i1 = i + 1 in
         if ch = CHR 0x5C then
           readString s quote (i1 + 1) (val @ (case charAt s i1 of Some d \<Rightarrow> [d] | None \<Rightarrow> ''undefined''))
         else if ch = quote then (val, i1)
         else readString s quote i1 (val @ [ch]))
      else (val, i))"
  by pat_completeness auto
termination
  by (relation "measure (\<lambda>(s, quote, i, val). length s - i)") auto

declare scanWhile.simps [simp del]
declare skipBlock.simps [simp del]
declare readString.simps [simp del]

lemma scanWhile_ge: "j \<le> scanWhile P s j"
proof (induction P s j rule: scanWhile.induct)
  case (1 P s j)
  show ?case
  proof (cases "j < length s \<and> P (s ! j)")
    case True
    with 1 have "j + 1 \<le> scanWhile P s (j + 1)" by simp
    moreover have "scanWhile P s j = scanWhile P s (j + 1)"
      using True by (subst scanWhile.simps) simp
    ultimately show ?thesis by simp
  next
    case False
    then have "scanWhile P s j = j" by (subst scanWhile.simps) auto
    then show ?thesis by simp
  qed
qed

lemma skipBlock_ge: "i \<le> skipBlock s i"
proof (induction s i rule: skipBlock.induct)
  case (1 s i)
  show ?case
  proof (cases "i < length s \<and> \<not> (s ! i = CHR ''*'' \<and> charAt s (i + 1) = Some (CHR ''/''))")
    case True
    with 1 have "i + 1 \<le> skipBlock s (i + 1)" by simp
    moreover have "skipBlock s i = skipBlock s (i + 1)"
      using True by (subst skipBlock.simps) simp
    ultimately show ?thesis by simp
  next
    case False
    then have "skipBlock s i = i" by (subst skipBlock.simps) auto
    then show ?thesis by simp
  qed
qed

lemma scanWhile_gt: "j < length s \<Longrightarrow> P (s ! j) \<Longrightarrow> j < scanWhile P s j"
  using scanWhile_ge [of "j + 1" P s] by (subst scanWhile.simps) simp

text \<open>
  The body of \<open>next()\<close> when nothing is peeked: the token at or after position \<open>i0\<close> and
  the position after it.  The two comment branches call \<open>next()\<close> again.
\<close>

definition twoOps :: "string list" where
  "twoOps = [''>='', ''<='', ''<>'', ''!='']"

definition singles :: string where
  "singles = '',().=*+/-<>''"

function nextToken :: "string \<Rightarrow> nat \<Rightarrow> error + (token \<times> nat)" where
  "nextToken s i0 =
     (let n = length s;
          i = scanWhile isSpace s i0
      in if i \<ge> n then Inr (T_eof, i)
         else
           (let c = s ! i in
            if c = CHR ''-'' \<and> charAt s (i + 1) = Some (CHR ''-'') then
              nextToken s (scanWhile (\<lambda>x. x \<noteq> CHR 0x0A) s i)
            else if c = CHR ''/'' \<and> charAt s (i + 1) = Some (CHR ''*'') then
              nextToken s (skipBlock s (i + 2) + 2)
            else if c = CHR 0x27 \<or> c = CHR 0x22 then
              (case readString s c (i + 1) [] of (val, i') \<Rightarrow> Inr (T_string val, i'))
            else if isDigit c then
              (let j = scanWhile (\<lambda>x. isDigit x \<or> x = CHR ''.'') s i
               in Inr (T_number (slice s i j), j))
            else if isIdentStart c then
              (let j = scanWhile isIdent s i
               in Inr (T_ident (slice s i j), j))
            else if c = CHR '':'' then
              (let j = scanWhile isIdent s (i + 1)
               in Inr (T_param_named (slice s (i + 1) j), j))
            else if c = CHR ''?'' then Inr (T_param_pos, i + 1)
            else
              (let two = take 2 (drop i s) in
               if two \<in> set twoOps then Inr (T_op two, i + 2)
               else if c \<in> set singles then Inr (T_op [c], i + 1)
               else Inl (Error (''Unexpected character: '' @ [c])))))"
  by pat_completeness auto
termination
proof (relation "measure (\<lambda>(s, i0). length s - i0)", goal_cases)
  case 1
  show ?case by simp
next
  case (2 s i0 n i c)
  then have lt: "i < length s" and c: "s ! i = CHR ''-''" by auto
  have "i0 \<le> i" using 2 scanWhile_ge by simp
  moreover have "i < scanWhile (\<lambda>x. x \<noteq> CHR 0x0A) s i"
    using lt c by (intro scanWhile_gt) auto
  ultimately show ?case using lt by simp
next
  case (3 s i0 n i c)
  then have lt: "i < length s" by auto
  have "i0 \<le> i" using 3 scanWhile_ge by simp
  moreover have "i + 2 \<le> skipBlock s (i + 2)" by (rule skipBlock_ge)
  ultimately show ?case using lt by simp
qed

declare nextToken.simps [simp del]

definition tk_next :: "tokenizer \<Rightarrow> error + (token \<times> tokenizer)" where
  "tk_next tk =
     (case tk_peeked tk of
        Some t \<Rightarrow> Inr (t, tk\<lparr>tk_peeked := None\<rparr>)
      | None \<Rightarrow>
          (case nextToken (tk_input tk) (tk_i tk) of
             Inl e \<Rightarrow> Inl e
           | Inr (t, j) \<Rightarrow> Inr (t, tk\<lparr>tk_i := j\<rparr>)))"

definition tk_peek :: "tokenizer \<Rightarrow> error + (token \<times> tokenizer)" where
  "tk_peek tk =
     (case tk_peeked tk of
        Some t \<Rightarrow> Inr (t, tk)
      | None \<Rightarrow>
          (case tk_next tk of
             Inl e \<Rightarrow> Inl e
           | Inr (t, tk1) \<Rightarrow> Inr (t, tk1\<lparr>tk_peeked := Some t\<rparr>)))"

section \<open>Parser\<close>

text \<open>
  A parser method takes the tokenizer and returns its result with the tokenizer as it
  leaves it, or the error it throws.  \<open>thenP\<close> sequences two steps.
\<close>

type_synonym 'a parser = "tokenizer \<Rightarrow> error + ('a \<times> tokenizer)"

definition thenP :: "error + ('a \<times> tokenizer) \<Rightarrow> ('a \<Rightarrow> tokenizer \<Rightarrow> error + 'b) \<Rightarrow> error + 'b" where
  "thenP r f = (case r of Inl e \<Rightarrow> Inl e | Inr (a, tk) \<Rightarrow> f a tk)"

subsection \<open>Token helpers\<close>

definition expectIdent :: "string parser" where
  "expectIdent tk =
     thenP (tk_next tk) (\<lambda>t tk1.
       case t of T_ident v \<Rightarrow> Inr (v, tk1) | _ \<Rightarrow> Inl (Error ''Expected identifier''))"

definition peekIdent :: "bool parser" where
  "peekIdent tk =
     thenP (tk_peek tk) (\<lambda>p tk1. Inr ((case p of T_ident v \<Rightarrow> True | _ \<Rightarrow> False), tk1))"

definition maybeIdent :: "string option parser" where
  "maybeIdent tk =
     thenP (tk_peek tk) (\<lambda>p tk1.
       case p of
         T_ident v \<Rightarrow> thenP (tk_next tk1) (\<lambda>t tk2. Inr (Some v, tk2))
       | _ \<Rightarrow> Inr (None, tk1))"

definition expectKW :: "string \<Rightarrow> string parser" where
  "expectKW kw tk =
     thenP (expectIdent tk) (\<lambda>v tk1.
       if toUpperCase v \<noteq> toUpperCase kw then Inl (Error (''Expected '' @ kw)) else Inr (v, tk1))"

definition eatKW :: "string \<Rightarrow> bool parser" where
  "eatKW kw tk =
     thenP (tk_peek tk) (\<lambda>p tk1.
       case p of
         T_ident v \<Rightarrow>
           if toUpperCase v = toUpperCase kw then thenP (tk_next tk1) (\<lambda>t tk2. Inr (True, tk2))
           else Inr (False, tk1)
       | _ \<Rightarrow> Inr (False, tk1))"

definition tryKW :: "string \<Rightarrow> bool parser" where
  "tryKW kw tk =
     thenP (tk_peek tk) (\<lambda>p tk1.
       Inr ((case p of T_ident v \<Rightarrow> toUpperCase v = toUpperCase kw | _ \<Rightarrow> False), tk1))"

definition expectOp :: "string \<Rightarrow> string parser" where
  "expectOp op tk =
     thenP (tk_next tk) (\<lambda>t tk1.
       case t of
         T_op v \<Rightarrow> if v \<noteq> op then Inl (Error (''Expected '' @ [CHR 0x27] @ op @ [CHR 0x27])) else Inr (v, tk1)
       | _ \<Rightarrow> Inl (Error (''Expected '' @ [CHR 0x27] @ op @ [CHR 0x27])))"

definition eatOp :: "string \<Rightarrow> bool parser" where
  "eatOp op tk =
     thenP (tk_peek tk) (\<lambda>p tk1.
       case p of
         T_op v \<Rightarrow>
           if v = op then thenP (tk_next tk1) (\<lambda>t tk2. Inr (True, tk2))
           else Inr (False, tk1)
       | _ \<Rightarrow> Inr (False, tk1))"

text \<open>
  The idiom \<open>do { xs.push(item()) } while (this._eatOp(','))\<close> of the list parsers.  The
  first argument bounds the number of rounds.
\<close>

fun commaLoop :: "nat \<Rightarrow> 'a parser \<Rightarrow> 'a list \<Rightarrow> 'a list parser" where
  "commaLoop 0 item xs tk = Inl OutOfFuel"
| "commaLoop (Suc k) item xs tk =
     thenP (item tk) (\<lambda>x tk1.
       thenP (eatOp '','' tk1) (\<lambda>more tk2.
         if more then commaLoop k item (xs @ [x]) tk2 else Inr (xs @ [x], tk2)))"

subsection \<open>Numbers\<close>

text \<open>
  The double nearest to a non-negative rational, ties going to the even significand: 53
  significant bits, the exponent of the leading bit from \<open>-1022\<close> (below it the
  subnormals, spaced \<open>2^-1074\<close>) to \<open>1023\<close>, and \<open>Infinity\<close> from \<open>2^1024\<close>.
\<close>

function bitLength :: "int \<Rightarrow> int" where
  "bitLength n = (if n \<le> 0 then 0 else 1 + bitLength (n div 2))"
  by pat_completeness auto
termination
  by (relation "measure nat") auto

declare bitLength.simps [simp del]

definition pow2 :: "int \<Rightarrow> rat" where
  "pow2 e = (if 0 \<le> e then 2 ^ nat e else 1 / 2 ^ nat (- e))"

definition floorLog2 :: "rat \<Rightarrow> int" where
  "floorLog2 r =
     (let (p, q) = quotient_of r;
          e = bitLength p - bitLength q
      in if pow2 e \<le> r then e else e - 1)"

definition roundHalfEven :: "rat \<Rightarrow> int" where
  "roundHalfEven x =
     (let f = \<lfloor>x\<rfloor>; d = x - of_int f
      in if d < 1 / 2 then f else if 1 / 2 < d then f + 1 else if even f then f else f + 1)"

definition toDouble :: "rat \<Rightarrow> number" where
  "toDouble r =
     (if r = 0 then Fin 0
      else
        (let e = floorLog2 r;
             q = max e (- 1022) - 52;
             m = roundHalfEven (r / pow2 q)
         in if 1023 < e \<or> (e = 1023 \<and> m = 2 ^ 53) then PosInf else Fin (of_int m * pow2 q)))"

text \<open>
  \<open>Number(lexeme)\<close> on the lexeme of a number token, a digit followed by digits and
  dots: \<open>NaN\<close> with more than one dot, else the double nearest to the decimal it denotes.
\<close>

definition digitsValue :: "string \<Rightarrow> int" where
  "digitsValue ds = foldl (\<lambda>a c. 10 * a + (of_char c - 48)) 0 ds"

definition Number_of :: "string \<Rightarrow> number" where
  "Number_of lexeme =
     (if length (filter (\<lambda>c. c = CHR ''.'') lexeme) > 1 then NaN
      else
        (let ip = takeWhile (\<lambda>c. c \<noteq> CHR ''.'') lexeme;
             fp = drop (length ip + 1) lexeme
         in toDouble (of_int (digitsValue ip) + of_int (digitsValue fp) / 10 ^ length fp)))"

definition parseNumberLit :: "number parser" where
  "parseNumberLit tk =
     thenP (tk_next tk) (\<lambda>n tk1.
       case n of T_number v \<Rightarrow> Inr (Number_of v, tk1) | _ \<Rightarrow> Inl (Error ''Expected number''))"

subsection \<open>Expressions\<close>

text \<open>
  The expression methods call each other recursively through \<open>parseExpr\<close>.  In the
  model each of them takes the bound \<open>k\<close> of its loops and the parser \<open>pe\<close> that stands
  for the nested call of \<open>parseExpr\<close>; \<open>parseExpr\<close> itself is defined by recursion on the
  bound.
\<close>

definition parseField :: "expr parser" where
  "parseField tk =
     thenP (expectIdent tk) (\<lambda>a tk1.
       thenP (eatOp ''.'' tk1) (\<lambda>dot tk2.
         if dot then thenP (expectIdent tk2) (\<lambda>b tk3. Inr (Field (Some a) b None, tk3))
         else Inr (Field None a None, tk2)))"

text \<open>The argument list of a call and the value list of \<open>IN\<close>, after the opening
  parenthesis: \<open>if (!this._eatOp(')')) { do { ... } while (this._eatOp(',')); this._expectOp(')'); }\<close>.\<close>

definition parenList :: "nat \<Rightarrow> expr parser \<Rightarrow> expr list parser" where
  "parenList k item tk =
     thenP (eatOp '')'' tk) (\<lambda>closed tk1.
       if closed then Inr ([], tk1)
       else thenP (commaLoop k item [] tk1) (\<lambda>xs tk2.
              thenP (expectOp '')'' tk2) (\<lambda>t tk3. Inr (xs, tk3))))"

definition parsePrimary :: "nat \<Rightarrow> expr parser \<Rightarrow> expr parser" where
  "parsePrimary k pe tk =
     thenP (tk_peek tk) (\<lambda>p tk0.
       case p of
         T_number v \<Rightarrow> thenP (tk_next tk0) (\<lambda>t tk1. Inr (Number (Number_of v), tk1))
       | T_string v \<Rightarrow> thenP (tk_next tk0) (\<lambda>t tk1. Inr (String v, tk1))
       | T_param_pos \<Rightarrow> thenP (tk_next tk0) (\<lambda>t tk1. Inr (ParamPos, tk1))
       | T_param_named v \<Rightarrow> thenP (tk_next tk0) (\<lambda>t tk1. Inr (ParamNamed v, tk1))
       | T_ident v \<Rightarrow>
           thenP (expectIdent tk0) (\<lambda>id tk1.
             let up = toUpperCase id in
             if up = ''NULL'' then Inr (Null, tk1)
             else if up = ''TRUE'' then Inr (Boolean True, tk1)
             else if up = ''FALSE'' then Inr (Boolean False, tk1)
             else
               thenP (eatOp ''('' tk1) (\<lambda>call tk2.
                 if call then thenP (parenList k pe tk2) (\<lambda>args tk3. Inr (Call id args, tk3))
                 else
                   thenP (eatOp ''.'' tk2) (\<lambda>dot tk3.
                     if dot then thenP (expectIdent tk3) (\<lambda>id2 tk4. Inr (Field (Some id) id2 None, tk4))
                     else Inr (Field None id None, tk3))))
       | _ \<Rightarrow>
           thenP (eatOp ''('' tk0) (\<lambda>paren tk1.
             if paren then thenP (pe tk1) (\<lambda>e tk2. thenP (expectOp '')'' tk2) (\<lambda>t tk3. Inr (e, tk3)))
             else
               thenP (eatOp ''*'' tk1) (\<lambda>star tk2.
                 if star then Inr (All, tk2)
                 else Inl (Error ''Unexpected token in expression''))))"

definition parseValue :: "nat \<Rightarrow> expr parser \<Rightarrow> expr parser" where
  "parseValue k pe tk = parsePrimary k pe tk"

definition parseUnary :: "nat \<Rightarrow> expr parser \<Rightarrow> expr parser" where
  "parseUnary k pe tk =
     thenP (eatOp ''-'' tk) (\<lambda>minus tk1.
       if minus then thenP (parsePrimary k pe tk1) (\<lambda>x tk2. Inr (Call ''NEG'' [x], tk2))
       else parsePrimary k pe tk1)"

text \<open>The loop \<open>while (true) { ... else break; }\<close> of \<open>parseMul\<close> and of \<open>parseAdd\<close>, for
  the operators \<open>ops\<close> and the operand parser \<open>operand\<close>.\<close>

fun binaryLoop :: "nat \<Rightarrow> string list \<Rightarrow> expr parser \<Rightarrow> expr \<Rightarrow> expr parser" where
  "binaryLoop 0 ops operand left tk = Inl OutOfFuel"
| "binaryLoop (Suc k) ops operand left tk =
     thenP (tk_peek tk) (\<lambda>p tk1.
       case p of
         T_op v \<Rightarrow>
           if v \<in> set ops then
             thenP (tk_next tk1) (\<lambda>t tk2.
               thenP (operand tk2) (\<lambda>right tk3.
                 binaryLoop k ops operand (Binary v left right) tk3))
           else Inr (left, tk1)
       | _ \<Rightarrow> Inr (left, tk1))"

definition parseMul :: "nat \<Rightarrow> expr parser \<Rightarrow> expr parser" where
  "parseMul k pe tk =
     thenP (parseUnary k pe tk) (\<lambda>left tk1. binaryLoop k [''*'', ''/''] (parseUnary k pe) left tk1)"

definition parseAdd :: "nat \<Rightarrow> expr parser \<Rightarrow> expr parser" where
  "parseAdd k pe tk =
     thenP (parseMul k pe tk) (\<lambda>left tk1. binaryLoop k [''+'', ''-''] (parseMul k pe) left tk1)"

definition comparisonOps :: "string list" where
  "comparisonOps = [''='', ''!='', ''<>'', ''>'', ''>='', ''<'', ''<='']"

definition parseComparisonOp :: "nat \<Rightarrow> expr parser \<Rightarrow> expr \<Rightarrow> expr parser" where
  "parseComparisonOp k pe left tk =
     thenP (tk_peek tk) (\<lambda>opTok tk1.
       case opTok of
         T_op v \<Rightarrow>
           if v \<in> set comparisonOps then
             thenP (tk_next tk1) (\<lambda>t tk2.
               thenP (parseAdd k pe tk2) (\<lambda>right tk3. Inr (Binary v left right, tk3)))
           else Inr (left, tk1)
       | _ \<Rightarrow> Inr (left, tk1))"

definition parseComparison :: "nat \<Rightarrow> expr parser \<Rightarrow> expr parser" where
  "parseComparison k pe tk =
     thenP (parseAdd k pe tk) (\<lambda>left tk1.
       thenP (tk_peek tk1) (\<lambda>nxt tk2.
         case nxt of
           T_ident v \<Rightarrow>
             (let kw = toUpperCase v in
              if kw = ''IS'' then
                thenP (tk_next tk2) (\<lambda>t tk3.
                  thenP (eatKW ''NOT'' tk3) (\<lambda>neg tk4.
                    thenP (expectKW ''NULL'' tk4) (\<lambda>t tk5.
                      Inr (Binary (if neg then ''IS NOT'' else ''IS'') left NullKind, tk5))))
              else if kw = ''IN'' then
                thenP (tk_next tk2) (\<lambda>t tk3.
                  thenP (expectOp ''('' tk3) (\<lambda>t tk4.
                    thenP (parenList k (parseValue k pe) tk4) (\<lambda>vals tk5.
                      Inr (Binary ''IN'' left (Array vals), tk5))))
              else if kw = ''BETWEEN'' then
                thenP (tk_next tk2) (\<lambda>t tk3.
                  thenP (parseValue k pe tk3) (\<lambda>lo tk4.
                    thenP (expectKW ''AND'' tk4) (\<lambda>t tk5.
                      thenP (parseValue k pe tk5) (\<lambda>hi tk6.
                        Inr (Binary ''BETWEEN'' left (Between lo hi), tk6)))))
              else if kw = ''LIKE'' then
                thenP (tk_next tk2) (\<lambda>t tk3.
                  thenP (parseValue k pe tk3) (\<lambda>pat tk4. Inr (Binary ''LIKE'' left pat, tk4)))
              else parseComparisonOp k pe left tk2)
         | _ \<Rightarrow> parseComparisonOp k pe left tk2))"

definition parseNot :: "nat \<Rightarrow> expr parser \<Rightarrow> expr parser" where
  "parseNot k pe tk =
     thenP (eatKW ''NOT'' tk) (\<lambda>neg tk1.
       if neg then thenP (parseComparison k pe tk1) (\<lambda>e tk2. Inr (Unary ''NOT'' e, tk2))
       else parseComparison k pe tk1)"

text \<open>The loop \<open>while (this._eatKW(kw)) { ... }\<close> of \<open>parseAnd\<close> and of \<open>parseOr\<close>.\<close>

fun keywordLoop :: "nat \<Rightarrow> string \<Rightarrow> expr parser \<Rightarrow> expr \<Rightarrow> expr parser" where
  "keywordLoop 0 kw operand left tk = Inl OutOfFuel"
| "keywordLoop (Suc k) kw operand left tk =
     thenP (eatKW kw tk) (\<lambda>more tk1.
       if more then
         thenP (operand tk1) (\<lambda>right tk2. keywordLoop k kw operand (Binary kw left right) tk2)
       else Inr (left, tk1))"

definition parseAnd :: "nat \<Rightarrow> expr parser \<Rightarrow> expr parser" where
  "parseAnd k pe tk =
     thenP (parseNot k pe tk) (\<lambda>left tk1. keywordLoop k ''AND'' (parseNot k pe) left tk1)"

definition parseOr :: "nat \<Rightarrow> expr parser \<Rightarrow> expr parser" where
  "parseOr k pe tk =
     thenP (parseAnd k pe tk) (\<lambda>left tk1. keywordLoop k ''OR'' (parseAnd k pe) left tk1)"

fun parseExpr :: "nat \<Rightarrow> expr parser" where
  "parseExpr 0 tk = Inl OutOfFuel"
| "parseExpr (Suc k) tk = parseOr k (parseExpr k) tk"

subsection \<open>Statements\<close>

record set_item =
  set_column :: expr
  set_value :: expr

record insert_ast =
  ins_into :: table_ref
  ins_columns :: "expr list"
  ins_values :: "expr list list option"
  ins_select :: "select_ast option"

record update_ast =
  upd_table :: table_ref
  upd_set :: "set_item list"
  upd_where :: "expr option"

record delete_ast =
  del_from :: table_ref
  del_where :: "expr option"

datatype statement =
    SELECT select_ast
  | INSERT insert_ast
  | UPDATE update_ast
  | DELETE delete_ast
  | BEGIN
  | COMMIT
  | ROLLBACK

text \<open>\<open>a() || b()\<close> on two parser steps: the second runs only when the first is false.\<close>

definition orP :: "bool parser \<Rightarrow> bool parser \<Rightarrow> bool parser" where
  "orP p q tk = thenP (p tk) (\<lambda>a tk1. if a then Inr (True, tk1) else q tk1)"

definition parseTableRef :: "table_ref parser" where
  "parseTableRef tk =
     thenP (expectIdent tk) (\<lambda>name tk1.
       thenP (eatKW ''AS'' tk1) (\<lambda>as tk2.
         if as then thenP (expectIdent tk2) (\<lambda>a tk3. Inr (\<lparr>t_name = name, t_alias = Some a\<rparr>, tk3))
         else
           thenP (peekIdent tk2) (\<lambda>isId tk3.
             if isId then thenP (maybeIdent tk3) (\<lambda>a tk4. Inr (\<lparr>t_name = name, t_alias = a\<rparr>, tk4))
             else Inr (\<lparr>t_name = name, t_alias = None\<rparr>, tk3))))"

definition parseTableRefNoAlias :: "table_ref parser" where
  "parseTableRefNoAlias tk =
     thenP (expectIdent tk) (\<lambda>name tk1. Inr (\<lparr>t_name = name, t_alias = None\<rparr>, tk1))"

definition parseJoinCondition :: "expr parser" where
  "parseJoinCondition tk =
     thenP (parseField tk) (\<lambda>left tk1.
       thenP (expectOp ''='' tk1) (\<lambda>op tk2.
         thenP (parseField tk2) (\<lambda>right tk3. Inr (Binary op left right, tk3))))"

definition parseSelectItem :: "nat \<Rightarrow> select_item parser" where
  "parseSelectItem k tk =
     thenP (eatOp ''*'' tk) (\<lambda>star tk1.
       if star then Inr (\<lparr>s_expr = All, s_alias = None\<rparr>, tk1)
       else
         thenP (parseExpr k tk1) (\<lambda>e tk2.
           thenP (eatKW ''AS'' tk2) (\<lambda>as tk3.
             if as then thenP (expectIdent tk3) (\<lambda>a tk4. Inr (\<lparr>s_expr = e, s_alias = Some a\<rparr>, tk4))
             else
               thenP (peekIdent tk3) (\<lambda>isId tk4.
                 if isId then thenP (maybeIdent tk4) (\<lambda>a tk5. Inr (\<lparr>s_expr = e, s_alias = a\<rparr>, tk5))
                 else Inr (\<lparr>s_expr = e, s_alias = None\<rparr>, tk4)))))"

definition parseSelectList :: "nat \<Rightarrow> select_item list parser" where
  "parseSelectList k tk = commaLoop k (parseSelectItem k) [] tk"

definition parseOrderByItem :: "nat \<Rightarrow> order_item parser" where
  "parseOrderByItem k tk =
     thenP (parseExpr k tk) (\<lambda>e tk1.
       thenP (eatKW ''ASC'' tk1) (\<lambda>asc tk2.
         if asc then Inr (\<lparr>o_expr = e, o_dir = ''ASC''\<rparr>, tk2)
         else
           thenP (eatKW ''DESC'' tk2) (\<lambda>desc tk3.
             Inr (\<lparr>o_expr = e, o_dir = (if desc then ''DESC'' else ''ASC'')\<rparr>, tk3))))"

definition parseOrderByList :: "nat \<Rightarrow> order_item list parser" where
  "parseOrderByList k tk = commaLoop k (parseOrderByItem k) [] tk"

definition parseFieldList :: "nat \<Rightarrow> expr list parser" where
  "parseFieldList k tk = commaLoop k parseField [] tk"

definition parseValueList :: "nat \<Rightarrow> expr list parser" where
  "parseValueList k tk = commaLoop k (parseValue k (parseExpr k)) [] tk"

definition parseIdentList :: "nat \<Rightarrow> string list parser" where
  "parseIdentList k tk = commaLoop k expectIdent [] tk"

text \<open>
  The \<open>JOIN\<close> loop of \<open>parseSelect\<close>.  Its condition compares one identifier token with
  \<open>JOIN\<close>, \<open>INNER JOIN\<close>, \<open>LEFT JOIN\<close> and \<open>LEFT OUTER JOIN\<close>; its body chooses the join type.
\<close>

definition parseJoinType :: "string parser" where
  "parseJoinType tk =
     thenP (orP (eatKW ''LEFT'') (eatKW ''LEFT OUTER'') tk) (\<lambda>left tk1.
       if left then Inr (''LEFT'', tk1)
       else
         thenP (eatKW ''INNER'' tk1) (\<lambda>inner tk2.
           if inner then Inr (''INNER'', tk2)
           else
             thenP (eatKW ''JOIN'' tk2) (\<lambda>j tk3.
               if j then Inr (''INNER'', tk3)
               else thenP (expectKW ''JOIN'' tk3) (\<lambda>t tk4. Inr (''INNER'', tk4)))))"

fun joinLoop :: "nat \<Rightarrow> join list \<Rightarrow> join list parser" where
  "joinLoop 0 joins tk = Inl OutOfFuel"
| "joinLoop (Suc k) joins tk =
     thenP (orP (tryKW ''JOIN'') (orP (tryKW ''INNER JOIN'') (orP (tryKW ''LEFT JOIN'') (tryKW ''LEFT OUTER JOIN''))) tk)
       (\<lambda>more tk1.
          if more then
            thenP (parseJoinType tk1) (\<lambda>type tk2.
              thenP (parseTableRef tk2) (\<lambda>table tk3.
                thenP (expectKW ''ON'' tk3) (\<lambda>t tk4.
                  thenP (parseJoinCondition tk4) (\<lambda>on tk5.
                    joinLoop k (joins @ [\<lparr>j_type = type, j_table = table, j_on = Some on\<rparr>]) tk5))))
          else Inr (joins, tk1))"

text \<open>An optional clause: \<open>if (this._eatKW(kw)) x = clause()\<close>.\<close>

definition optClause :: "string \<Rightarrow> 'a parser \<Rightarrow> 'a option parser" where
  "optClause kw clause tk =
     thenP (eatKW kw tk) (\<lambda>present tk1.
       if present then thenP (clause tk1) (\<lambda>x tk2. Inr (Some x, tk2)) else Inr (None, tk1))"

definition byList :: "'a list parser \<Rightarrow> 'a list parser" where
  "byList items tk = thenP (expectKW ''BY'' tk) (\<lambda>t tk1. items tk1)"

definition orEmpty :: "'a list option \<Rightarrow> 'a list" where
  "orEmpty xs = (case xs of None \<Rightarrow> [] | Some ys \<Rightarrow> ys)"

text \<open>\<open>parseSelect\<close>; \<open>parseSelectAfterInitial\<close> has the same body.\<close>

definition parseSelect :: "nat \<Rightarrow> select_ast parser" where
  "parseSelect k tk =
     thenP (parseSelectList k tk) (\<lambda>columns tk1.
     thenP (expectKW ''FROM'' tk1) (\<lambda>t tk2.
     thenP (parseTableRef tk2) (\<lambda>from tk3.
     thenP (joinLoop k [] tk3) (\<lambda>joins tk4.
     thenP (optClause ''WHERE'' (parseExpr k) tk4) (\<lambda>wh tk5.
     thenP (optClause ''GROUP'' (byList (parseFieldList k)) tk5) (\<lambda>groupBy tk6.
     thenP (optClause ''HAVING'' (parseExpr k) tk6) (\<lambda>having tk7.
     thenP (optClause ''ORDER'' (byList (parseOrderByList k)) tk7) (\<lambda>orderBy tk8.
     thenP (optClause ''LIMIT'' parseNumberLit tk8) (\<lambda>limit tk9.
     thenP (optClause ''OFFSET'' parseNumberLit tk9) (\<lambda>offset tk10.
       Inr (\<lparr>sel_columns = columns, sel_from = from, sel_joins = joins, sel_where = wh,
             sel_groupBy = orEmpty groupBy, sel_having = having, sel_orderBy = orEmpty orderBy,
             sel_limit = limit, sel_offset = offset\<rparr>, tk10)))))))))))"

definition parseSelectAfterInitial :: "nat \<Rightarrow> select_ast parser" where
  "parseSelectAfterInitial k tk = parseSelect k tk"

definition parseValuesRow :: "nat \<Rightarrow> expr list parser" where
  "parseValuesRow k tk =
     thenP (expectOp ''('' tk) (\<lambda>t tk1.
       thenP (parseValueList k tk1) (\<lambda>row tk2.
         thenP (expectOp '')'' tk2) (\<lambda>t tk3. Inr (row, tk3))))"

definition parseInsert :: "nat \<Rightarrow> statement parser" where
  "parseInsert k tk =
     thenP (expectKW ''INTO'' tk) (\<lambda>t tk1.
     thenP (parseTableRefNoAlias tk1) (\<lambda>into tk2.
     thenP (eatOp ''('' tk2) (\<lambda>paren tk3.
     thenP (if paren then
              thenP (parseIdentList k tk3) (\<lambda>ids tk4.
                thenP (expectOp '')'' tk4) (\<lambda>t tk5. Inr (map (\<lambda>n. Field None n None) ids, tk5)))
            else Inr ([], tk3)) (\<lambda>columns tk6.
     thenP (eatKW ''VALUES'' tk6) (\<lambda>vals tk7.
       if vals then
         thenP (commaLoop k (parseValuesRow k) [] tk7) (\<lambda>rows tk8.
           Inr (INSERT \<lparr>ins_into = into, ins_columns = columns, ins_values = Some rows, ins_select = None\<rparr>, tk8))
       else
         thenP (eatKW ''SELECT'' tk7) (\<lambda>sel tk8.
           if sel then
             thenP (parseSelectAfterInitial k tk8) (\<lambda>select tk9.
               Inr (INSERT \<lparr>ins_into = into, ins_columns = columns, ins_values = None, ins_select = Some select\<rparr>, tk9))
           else Inl (Error ''INSERT supports VALUES or SELECT'')))))))"

definition parseSetItem :: "nat \<Rightarrow> set_item parser" where
  "parseSetItem k tk =
     thenP (expectIdent tk) (\<lambda>col tk1.
       thenP (expectOp ''='' tk1) (\<lambda>t tk2.
         thenP (parseValue k (parseExpr k) tk2) (\<lambda>v tk3.
           Inr (\<lparr>set_column = Field None col None, set_value = v\<rparr>, tk3))))"

definition parseUpdate :: "nat \<Rightarrow> statement parser" where
  "parseUpdate k tk =
     thenP (parseTableRefNoAlias tk) (\<lambda>table tk1.
     thenP (expectKW ''SET'' tk1) (\<lambda>t tk2.
     thenP (commaLoop k (parseSetItem k) [] tk2) (\<lambda>set tk3.
     thenP (optClause ''WHERE'' (parseExpr k) tk3) (\<lambda>wh tk4.
       Inr (UPDATE \<lparr>upd_table = table, upd_set = set, upd_where = wh\<rparr>, tk4)))))"

definition parseDelete :: "nat \<Rightarrow> statement parser" where
  "parseDelete k tk =
     thenP (expectKW ''FROM'' tk) (\<lambda>t tk1.
     thenP (parseTableRefNoAlias tk1) (\<lambda>from tk2.
     thenP (optClause ''WHERE'' (parseExpr k) tk2) (\<lambda>wh tk3.
       Inr (DELETE \<lparr>del_from = from, del_where = wh\<rparr>, tk3))))"

definition parseStatement :: "nat \<Rightarrow> statement parser" where
  "parseStatement k tk =
     thenP (expectIdent tk) (\<lambda>tok tk1.
       let kw = toUpperCase tok in
       if kw = ''SELECT'' then thenP (parseSelect k tk1) (\<lambda>ast tk2. Inr (SELECT ast, tk2))
       else if kw = ''INSERT'' then parseInsert k tk1
       else if kw = ''UPDATE'' then parseUpdate k tk1
       else if kw = ''DELETE'' then parseDelete k tk1
       else if kw = ''BEGIN'' then Inr (BEGIN, tk1)
       else if kw = ''COMMIT'' then Inr (COMMIT, tk1)
       else if kw = ''ROLLBACK'' then Inr (ROLLBACK, tk1)
       else Inl (Error (''Unsupported statement: '' @ kw)))"

section \<open>The entry point\<close>

text \<open>
  \<open>query\<close> up to the call it makes on the store: the command with its arguments.  The
  execution of the command and the rows it returns are the store's; a command is run with
  the option \<open>session\<close> when a session is active.  \<open>Begin\<close> starts a session and its
  transaction and makes it the active session; \<open>Commit\<close> and \<open>Rollback\<close> end the active
  session.  For \<open>INSERT ... SELECT\<close> the command is the aggregation of the inner \<open>SELECT\<close>
  whose rows are then mapped onto the insert columns.
\<close>

datatype command =
    Begin
  | Commit
  | Rollback
  | InsertMany string "json list"
  | InsertSelect string "expr list" string "json list"
  | UpdateMany string json json
  | DeleteMany string json
  | Aggregate string "json list"

definition expr_name :: "expr \<Rightarrow> string" where
  "expr_name e =
     (case e of
        Field t n a \<Rightarrow> n
      | Call n args \<Rightarrow> n
      | ParamNamed n \<Rightarrow> n
      | _ \<Rightarrow> ''undefined'')"

text \<open>\<open>ast.columns.forEach((c, i) => { doc[c.name] = binder.bindValue(row[i]); })\<close>.\<close>

fun insertDoc :: "expr list \<Rightarrow> nat \<Rightarrow> expr list \<Rightarrow> param_binder \<Rightarrow> (string \<times> json) list \<Rightarrow> error + ((string \<times> json) list \<times> param_binder)" where
  "insertDoc [] i row b doc = Inr (doc, b)"
| "insertDoc (c # cs) i row b doc =
     (case bindValueOpt b (if i < length row then Some (row ! i) else None) of
        Inl e \<Rightarrow> Inl e
      | Inr (v, b1) \<Rightarrow> insertDoc cs (i + 1) row b1 (objSet doc (expr_name c) v))"

fun insertDocs :: "expr list \<Rightarrow> expr list list \<Rightarrow> param_binder \<Rightarrow> error + (json list \<times> param_binder)" where
  "insertDocs columns [] b = Inr ([], b)"
| "insertDocs columns (row # rows) b =
     (case insertDoc columns 0 row b [] of
        Inl e \<Rightarrow> Inl e
      | Inr (doc, b1) \<Rightarrow>
          (case insertDocs columns rows b1 of
             Inl e \<Rightarrow> Inl e
           | Inr (docs, b2) \<Rightarrow> Inr (JObj doc # docs, b2)))"

definition execInsert :: "(number \<Rightarrow> string) \<Rightarrow> (string \<rightharpoonup> table_meta) \<Rightarrow> function_table \<Rightarrow> insert_ast \<Rightarrow> param_binder \<Rightarrow> error + command" where
  "execInsert ns tables fns ast b =
     (case getCollection tables (t_name (ins_into ast)) of
        Inl e \<Rightarrow> Inl e
      | Inr col \<Rightarrow>
          (case ins_values ast of
             Some rows \<Rightarrow>
               (case insertDocs (ins_columns ast) rows b of
                  Inl e \<Rightarrow> Inl e
                | Inr (docs, b1) \<Rightarrow> Inr (InsertMany col docs))
           | None \<Rightarrow>
               (case ins_select ast of
                  Some select \<Rightarrow>
                    (case execSelect ns tables fns select b of
                       Inl e \<Rightarrow> Inl e
                     | Inr (src, pipeline, b1) \<Rightarrow> Inr (InsertSelect col (ins_columns ast) src pipeline))
                | None \<Rightarrow> Inl (Error ''INSERT must have VALUES or SELECT''))))"

fun buildUpdateSet :: "set_item list \<Rightarrow> param_binder \<Rightarrow> (string \<times> json) list \<Rightarrow> error + ((string \<times> json) list \<times> param_binder)" where
  "buildUpdateSet [] b st = Inr (st, b)"
| "buildUpdateSet (s # ss) b st =
     (case bindValue b (set_value s) of
        Inl e \<Rightarrow> Inl e
      | Inr (v, b1) \<Rightarrow> buildUpdateSet ss b1 (objSet st (expr_name (set_column s)) v))"

definition buildUpdate :: "set_item list \<Rightarrow> param_binder \<Rightarrow> error + (json \<times> param_binder)" where
  "buildUpdate setList b =
     (case buildUpdateSet setList b [] of
        Inl e \<Rightarrow> Inl e
      | Inr (st, b1) \<Rightarrow> Inr (JObj [(''$set'', JObj st)], b1))"

definition execUpdate :: "(number \<Rightarrow> string) \<Rightarrow> (string \<rightharpoonup> table_meta) \<Rightarrow> update_ast \<Rightarrow> param_binder \<Rightarrow> error + command" where
  "execUpdate ns tables ast b =
     (let table = t_name (upd_table ast) in
      case getCollection tables table of
        Inl e \<Rightarrow> Inl e
      | Inr col \<Rightarrow>
          (case buildMatchOpt ns (upd_where ast) b table of
             Inl e \<Rightarrow> Inl e
           | Inr (flt, b1) \<Rightarrow>
               (case buildUpdate (upd_set ast) b1 of
                  Inl e \<Rightarrow> Inl e
                | Inr (update, b2) \<Rightarrow> Inr (UpdateMany col flt update))))"

definition execDelete :: "(number \<Rightarrow> string) \<Rightarrow> (string \<rightharpoonup> table_meta) \<Rightarrow> delete_ast \<Rightarrow> param_binder \<Rightarrow> error + command" where
  "execDelete ns tables ast b =
     (let table = t_name (del_from ast) in
      case getCollection tables table of
        Inl e \<Rightarrow> Inl e
      | Inr col \<Rightarrow>
          (case buildMatchOpt ns (del_where ast) b table of
             Inl e \<Rightarrow> Inl e
           | Inr (flt, b1) \<Rightarrow> Inr (DeleteMany col flt)))"

text \<open>\<open>_begin\<close>, \<open>_commit\<close> and \<open>_rollback\<close>, on an engine that was or was not given a client
  (\<open>this.client\<close>) and has or has not an active session (\<open>this.session\<close>).\<close>

definition begin_transaction :: "bool \<Rightarrow> bool \<Rightarrow> error + command" where
  "begin_transaction client session =
     (if \<not> client then Inl (Error ''BEGIN requires a Mongo client to create sessions'')
      else if session then Inl (Error ''Transaction already started'')
      else Inr Begin)"

definition commit_transaction :: "bool \<Rightarrow> error + command" where
  "commit_transaction session =
     (if \<not> session then Inl (Error ''No active transaction'') else Inr Commit)"

definition rollback_transaction :: "bool \<Rightarrow> error + command" where
  "rollback_transaction session =
     (if \<not> session then Inl (Error ''No active transaction'') else Inr Rollback)"

text \<open>
  \<open>query(sql, namedParams, positionalParams)\<close> of an engine whose registry is \<open>tables\<close>,
  whose function table is \<open>fns\<close>, and whose transaction state is \<open>client\<close> and \<open>session\<close>.
  \<open>fuel\<close> is the recursion bound of the parser model and \<open>ns\<close> the engine's rendering of
  numbers as text.
\<close>

definition query :: "nat \<Rightarrow> (number \<Rightarrow> string) \<Rightarrow> (string \<rightharpoonup> table_meta) \<Rightarrow> function_table \<Rightarrow> bool \<Rightarrow> bool \<Rightarrow> string \<Rightarrow> (string \<rightharpoonup> json) \<Rightarrow> json list \<Rightarrow> error + command" where
  "query fuel ns tables fns client session sql namedParams positionalParams =
     (case parseStatement fuel (Tokenizer sql) of
        Inl e \<Rightarrow> Inl e
      | Inr (ast, tk) \<Rightarrow>
          (let b = ParamBinder namedParams positionalParams in
           case ast of
             BEGIN \<Rightarrow> begin_transaction client session
           | COMMIT \<Rightarrow> commit_transaction session
           | ROLLBACK \<Rightarrow> rollback_transaction session
           | INSERT a \<Rightarrow> execInsert ns tables fns a b
           | UPDATE a \<Rightarrow> execUpdate ns tables a b
           | DELETE a \<Rightarrow> execDelete ns tables a b
           | SELECT a \<Rightarrow>
               (case execSelect ns tables fns a b of
                  Inl e \<Rightarrow> Inl e
                | Inr (col, pipeline, b1) \<Rightarrow> Inr (Aggregate col pipeline))))"

section \<open>Vocabulary of the properties\<close>

text \<open>The operator of a pipeline stage: the first key of the stage object.\<close>

definition stageKind :: "json \<Rightarrow> string" where
  "stageKind st = (case st of JObj ((k, v) # kvs) \<Rightarrow> k | _ \<Rightarrow> [])"




text \<open>
  The text after the opening quote \<open>q\<close> of a string literal.  It is \<open>unterminated\<close> when no
  quote \<open>q\<close> closes it, a character behind a backslash not counting; \<open>resolved\<close> is the text
  with each escape marker removed and the character behind it kept; it \<open>endsInEscape\<close> when
  its last character is an escape marker with nothing behind it.
\<close>

fun unterminated :: "char \<Rightarrow> string \<Rightarrow> bool" where
  "unterminated q [] = True"
| "unterminated q [c] = (c = CHR 0x5C \<or> c \<noteq> q)"
| "unterminated q (c # d # cs) =
     (if c = CHR 0x5C then unterminated q cs else if c = q then False else unterminated q (d # cs))"

fun resolved :: "string \<Rightarrow> string" where
  "resolved [] = []"
| "resolved [c] = (if c = CHR 0x5C then [] else [c])"
| "resolved (c # d # cs) = (if c = CHR 0x5C then d # resolved cs else c # resolved (d # cs))"

fun endsInEscape :: "string \<Rightarrow> bool" where
  "endsInEscape [] = False"
| "endsInEscape [c] = (c = CHR 0x5C)"
| "endsInEscape (c # d # cs) = (if c = CHR 0x5C then endsInEscape cs else endsInEscape (d # cs))"

text \<open>Two results of a parser run with two recursion bounds: the second is the first
  unless the first is out of fuel.\<close>

definition fuelLe :: "error + 'a \<Rightarrow> error + 'a \<Rightarrow> bool" where
  "fuelLe r r' = (r = Inl OutOfFuel \<or> r' = r)"

section \<open>Sample inputs\<close>

text \<open>
  A registry with two tables, the tree of a statement with every clause and a join of type
  \<open>LEFT\<close>, and the pipeline it lowers to.
\<close>

definition sampleTables :: "string \<rightharpoonup> table_meta" where
  "sampleTables = map_of [(''t'', \<lparr>m_name = ''t'', m_collection = ''t''\<rparr>),
                          (''o'', \<lparr>m_name = ''o'', m_collection = ''orders''\<rparr>)]"

definition sampleSelect :: select_ast where
  "sampleSelect =
     \<lparr>sel_columns = [\<lparr>s_expr = Call ''COUNT'' [All], s_alias = Some ''n''\<rparr>],
      sel_from = \<lparr>t_name = ''t'', t_alias = Some ''u''\<rparr>,
      sel_joins = [\<lparr>j_type = ''LEFT'', j_table = \<lparr>t_name = ''o'', t_alias = None\<rparr>,
                    j_on = Some (Binary ''='' (Field (Some ''u'') ''id'' None) (Field (Some ''o'') ''uid'' None))\<rparr>],
      sel_where = Some (Binary ''>'' (Field None ''age'' None) (Number (Fin 25))),
      sel_groupBy = [Field None ''city'' None],
      sel_having = Some (Binary ''>'' (Call ''COUNT'' [All]) (Number (Fin 3))),
      sel_orderBy = [\<lparr>o_expr = Field None ''n'' None, o_dir = ''DESC''\<rparr>],
      sel_limit = Some (Fin 10), sel_offset = Some (Fin 5)\<rparr>"

definition sampleGroup :: json where
  "sampleGroup = JObj [(''$group'', JObj [(''_id'', JObj [(''city'', JStr ''$u.city'')]),
                                           (''n'', JObj [(''$sum'', JNum (Fin 1))])])]"

definition sampleProject :: json where
  "sampleProject = JObj [(''$project'', JObj [(''city'', JStr ''$_id.city''), (''n'', JNum (Fin 1))])]"

definition samplePipeline :: "json list" where
  "samplePipeline =
     [JObj [(''$match'', JObj [(''u.age'', JObj [(''$gt'', JNum (Fin 25))])])],
      JObj [(''$lookup'', JObj [(''from'', JStr ''orders''), (''localField'', JStr ''id''),
                                (''foreignField'', JStr ''uid''), (''as'', JStr ''o'')])],
      JObj [(''$unwind'', JObj [(''path'', JStr ''$o''), (''preserveNullAndEmptyArrays'', JBool True)])],
      sampleGroup,
      JObj [(''$match'', JObj [(''count'', JObj [(''$gt'', JNum (Fin 3))])])],
      sampleProject,
      JObj [(''$sort'', JObj [(''n'', JNum (Fin (- 1)))])],
      JObj [(''$skip'', JNum (Fin 5))],
      JObj [(''$limit'', JNum (Fin 10))]]"


section \<open>Properties\<close>

subsection \<open>Auxiliary facts\<close>

lemma qualifyField_Field:
  "qualifyField (Field t n a) dt =
     Inr \<lparr>q_table = orElse t dt, q_field = n, q_path = dropLeadingDot (orElse t dt @ ''.'' @ n)\<rparr>"
  by (simp add: qualifyField_def Let_def dropLeadingDot_def)

text \<open>The definitions that evaluate the lowering of the sample statement.\<close>

lemmas sample_defs = sampleTables_def sampleSelect_def samplePipeline_def sampleGroup_def sampleProject_def
  ParamBinder_def getCollection_def toLowerCase_def lowerChar_def upperLetters_def lowerLetters_def
  orElse_def qualifyField_def dropLeadingDot_def projectKey_def isAggregate_def toUpperCase_def
  upperChar_def toMongoAgg_def exprAlias_def buildHaving_def joinAlias_def objSet_def isArrayIndex_def

lemma sampleSelect_lowered:
  "execSelect (\<lambda>n. []) sampleTables buildBuiltinFunctions sampleSelect (ParamBinder Map.empty []) =
     Inr (''t'', samplePipeline, ParamBinder Map.empty [])"
  by (simp add: execSelect_def whereStage_def groupStages_def sortStage_def pageStages_def
      Number_isFinite_def sample_defs)

subsection \<open>The recursion bound of the parser\<close>

text \<open>
  The bound only cuts recursion short: every parser method run with a greater bound (and a
  nested parser that does the same) returns what it returned before, result or error,
  unless it was out of fuel.  So a result obtained with one bound is the result of the
  parser.
\<close>

lemma fuelLe_refl [simp]: "fuelLe r r"
  by (simp add: fuelLe_def)

lemma fuelLe_OutOfFuel [simp]: "fuelLe (Inl OutOfFuel) r"
  by (simp add: fuelLe_def)

lemma fuelLe_thenP:
  "fuelLe r r' \<Longrightarrow> (\<And>a tk. fuelLe (f a tk) (f' a tk)) \<Longrightarrow> fuelLe (thenP r f) (thenP r' f')"
  by (cases r) (auto simp: fuelLe_def thenP_def)

lemma fuelLe_thenP_same:
  "(\<And>a tk. fuelLe (f a tk) (f' a tk)) \<Longrightarrow> fuelLe (thenP r f) (thenP r f')"
  by (rule fuelLe_thenP) simp_all

lemma fuelLe_if:
  "(c \<Longrightarrow> fuelLe x x') \<Longrightarrow> (\<not> c \<Longrightarrow> fuelLe y y') \<Longrightarrow> fuelLe (if c then x else y) (if c then x' else y')"
  by simp

lemma commaLoop_fuel:
  "(\<And>tk. fuelLe (item tk) (item' tk)) \<Longrightarrow> k \<le> k' \<Longrightarrow>
   fuelLe (commaLoop k item xs tk) (commaLoop k' item' xs tk)"
proof (induction k arbitrary: k' xs tk)
  case 0
  then show ?case by simp
next
  case (Suc k)
  then obtain j where k': "k' = Suc j" and le: "k \<le> j" by (cases k') auto
  show ?case unfolding k' commaLoop.simps
    by (intro fuelLe_thenP fuelLe_thenP_same fuelLe_if Suc.prems(1) Suc.IH [OF Suc.prems(1) le] fuelLe_refl)
qed

lemma binaryLoop_fuel:
  "(\<And>tk. fuelLe (operand tk) (operand' tk)) \<Longrightarrow> k \<le> k' \<Longrightarrow>
   fuelLe (binaryLoop k ops operand left tk) (binaryLoop k' ops operand' left tk)"
proof (induction k arbitrary: k' left tk)
  case 0
  then show ?case by simp
next
  case (Suc k)
  then obtain j where k': "k' = Suc j" and le: "k \<le> j" by (cases k') auto
  show ?case unfolding k' binaryLoop.simps
    by (auto intro!: fuelLe_thenP fuelLe_thenP_same Suc.prems(1) Suc.IH [OF Suc.prems(1) le]
        split: token.splits)
qed

lemma keywordLoop_fuel:
  "(\<And>tk. fuelLe (operand tk) (operand' tk)) \<Longrightarrow> k \<le> k' \<Longrightarrow>
   fuelLe (keywordLoop k kw operand left tk) (keywordLoop k' kw operand' left tk)"
proof (induction k arbitrary: k' left tk)
  case 0
  then show ?case by simp
next
  case (Suc k)
  then obtain j where k': "k' = Suc j" and le: "k \<le> j" by (cases k') auto
  show ?case unfolding k' keywordLoop.simps
    by (auto intro!: fuelLe_thenP fuelLe_thenP_same Suc.prems(1) Suc.IH [OF Suc.prems(1) le])
qed

lemma parenList_fuel:
  "(\<And>tk. fuelLe (item tk) (item' tk)) \<Longrightarrow> k \<le> k' \<Longrightarrow>
   fuelLe (parenList k item tk) (parenList k' item' tk)"
  unfolding parenList_def
  by (auto intro!: fuelLe_thenP fuelLe_thenP_same commaLoop_fuel)

lemma parsePrimary_fuel:
  "(\<And>tk. fuelLe (pe tk) (pe' tk)) \<Longrightarrow> k \<le> k' \<Longrightarrow>
   fuelLe (parsePrimary k pe tk) (parsePrimary k' pe' tk)"
  unfolding parsePrimary_def
  by (auto intro!: fuelLe_thenP fuelLe_thenP_same parenList_fuel simp: Let_def split: token.splits)

lemma parseValue_fuel:
  "(\<And>tk. fuelLe (pe tk) (pe' tk)) \<Longrightarrow> k \<le> k' \<Longrightarrow>
   fuelLe (parseValue k pe tk) (parseValue k' pe' tk)"
  unfolding parseValue_def by (rule parsePrimary_fuel)

lemma parseUnary_fuel:
  "(\<And>tk. fuelLe (pe tk) (pe' tk)) \<Longrightarrow> k \<le> k' \<Longrightarrow>
   fuelLe (parseUnary k pe tk) (parseUnary k' pe' tk)"
  unfolding parseUnary_def
  by (auto intro!: fuelLe_thenP fuelLe_thenP_same parsePrimary_fuel)

lemma parseMul_fuel:
  "(\<And>tk. fuelLe (pe tk) (pe' tk)) \<Longrightarrow> k \<le> k' \<Longrightarrow>
   fuelLe (parseMul k pe tk) (parseMul k' pe' tk)"
  unfolding parseMul_def
  by (auto intro!: fuelLe_thenP binaryLoop_fuel parseUnary_fuel)

lemma parseAdd_fuel:
  "(\<And>tk. fuelLe (pe tk) (pe' tk)) \<Longrightarrow> k \<le> k' \<Longrightarrow>
   fuelLe (parseAdd k pe tk) (parseAdd k' pe' tk)"
  unfolding parseAdd_def
  by (auto intro!: fuelLe_thenP binaryLoop_fuel parseMul_fuel)

lemma parseComparisonOp_fuel:
  "(\<And>tk. fuelLe (pe tk) (pe' tk)) \<Longrightarrow> k \<le> k' \<Longrightarrow>
   fuelLe (parseComparisonOp k pe left tk) (parseComparisonOp k' pe' left tk)"
  unfolding parseComparisonOp_def
  by (auto intro!: fuelLe_thenP fuelLe_thenP_same parseAdd_fuel split: token.splits)

lemma parseComparison_fuel:
  "(\<And>tk. fuelLe (pe tk) (pe' tk)) \<Longrightarrow> k \<le> k' \<Longrightarrow>
   fuelLe (parseComparison k pe tk) (parseComparison k' pe' tk)"
  unfolding parseComparison_def
  by (auto intro!: fuelLe_thenP fuelLe_thenP_same parseAdd_fuel parseComparisonOp_fuel parenList_fuel
      parseValue_fuel simp: Let_def split: token.splits)

lemma parseNot_fuel:
  "(\<And>tk. fuelLe (pe tk) (pe' tk)) \<Longrightarrow> k \<le> k' \<Longrightarrow>
   fuelLe (parseNot k pe tk) (parseNot k' pe' tk)"
  unfolding parseNot_def
  by (auto intro!: fuelLe_thenP fuelLe_thenP_same parseComparison_fuel)

lemma parseAnd_fuel:
  "(\<And>tk. fuelLe (pe tk) (pe' tk)) \<Longrightarrow> k \<le> k' \<Longrightarrow>
   fuelLe (parseAnd k pe tk) (parseAnd k' pe' tk)"
  unfolding parseAnd_def
  by (auto intro!: fuelLe_thenP keywordLoop_fuel parseNot_fuel)

lemma parseOr_fuel:
  "(\<And>tk. fuelLe (pe tk) (pe' tk)) \<Longrightarrow> k \<le> k' \<Longrightarrow>
   fuelLe (parseOr k pe tk) (parseOr k' pe' tk)"
  unfolding parseOr_def
  by (auto intro!: fuelLe_thenP keywordLoop_fuel parseAnd_fuel)

lemma parseExpr_fuel: "k \<le> k' \<Longrightarrow> fuelLe (parseExpr k tk) (parseExpr k' tk)"
proof (induction k arbitrary: k' tk)
  case 0
  then show ?case by simp
next
  case (Suc k)
  then obtain j where k': "k' = Suc j" and le: "k \<le> j" by (cases k') auto
  show ?case unfolding k' parseExpr.simps
    by (rule parseOr_fuel [OF Suc.IH [OF le] le])
qed


lemma optClause_fuel:
  "(\<And>tk. fuelLe (clause tk) (clause' tk)) \<Longrightarrow> fuelLe (optClause kw clause tk) (optClause kw clause' tk)"
  unfolding optClause_def
  by (auto intro!: fuelLe_thenP fuelLe_thenP_same)

lemma byList_fuel:
  "(\<And>tk. fuelLe (items tk) (items' tk)) \<Longrightarrow> fuelLe (byList items tk) (byList items' tk)"
  unfolding byList_def
  by (auto intro!: fuelLe_thenP_same)

lemma parseSelectItem_fuel:
  "k \<le> k' \<Longrightarrow> fuelLe (parseSelectItem k tk) (parseSelectItem k' tk)"
  unfolding parseSelectItem_def
  by (auto intro!: fuelLe_thenP fuelLe_thenP_same parseExpr_fuel)

lemma parseSelectList_fuel:
  "k \<le> k' \<Longrightarrow> fuelLe (parseSelectList k tk) (parseSelectList k' tk)"
  unfolding parseSelectList_def
  by (auto intro!: commaLoop_fuel parseSelectItem_fuel)

lemma parseOrderByItem_fuel:
  "k \<le> k' \<Longrightarrow> fuelLe (parseOrderByItem k tk) (parseOrderByItem k' tk)"
  unfolding parseOrderByItem_def
  by (auto intro!: fuelLe_thenP fuelLe_thenP_same parseExpr_fuel)

lemma parseOrderByList_fuel:
  "k \<le> k' \<Longrightarrow> fuelLe (parseOrderByList k tk) (parseOrderByList k' tk)"
  unfolding parseOrderByList_def
  by (auto intro!: commaLoop_fuel parseOrderByItem_fuel)

lemma parseFieldList_fuel:
  "k \<le> k' \<Longrightarrow> fuelLe (parseFieldList k tk) (parseFieldList k' tk)"
  unfolding parseFieldList_def
  by (auto intro!: commaLoop_fuel)

lemma parseValueList_fuel:
  "k \<le> k' \<Longrightarrow> fuelLe (parseValueList k tk) (parseValueList k' tk)"
  unfolding parseValueList_def
  by (auto intro!: commaLoop_fuel parseValue_fuel parseExpr_fuel)

lemma parseIdentList_fuel:
  "k \<le> k' \<Longrightarrow> fuelLe (parseIdentList k tk) (parseIdentList k' tk)"
  unfolding parseIdentList_def
  by (auto intro!: commaLoop_fuel)

lemma joinLoop_fuel:
  "k \<le> k' \<Longrightarrow> fuelLe (joinLoop k joins tk) (joinLoop k' joins tk)"
proof (induction k arbitrary: k' joins tk)
  case 0
  then show ?case by simp
next
  case (Suc k)
  then obtain j where k': "k' = Suc j" and le: "k \<le> j" by (cases k') auto
  show ?case unfolding k' joinLoop.simps
    by (auto intro!: fuelLe_thenP_same Suc.IH [OF le])
qed

lemma parseSelect_fuel:
  "k \<le> k' \<Longrightarrow> fuelLe (parseSelect k tk) (parseSelect k' tk)"
  unfolding parseSelect_def
  by (intro fuelLe_thenP fuelLe_thenP_same parseSelectList_fuel joinLoop_fuel optClause_fuel
      byList_fuel parseExpr_fuel parseFieldList_fuel parseOrderByList_fuel fuelLe_refl)

lemma parseValuesRow_fuel:
  "k \<le> k' \<Longrightarrow> fuelLe (parseValuesRow k tk) (parseValuesRow k' tk)"
  unfolding parseValuesRow_def
  by (auto intro!: fuelLe_thenP fuelLe_thenP_same parseValueList_fuel)

lemma parseInsert_fuel:
  "k \<le> k' \<Longrightarrow> fuelLe (parseInsert k tk) (parseInsert k' tk)"
  unfolding parseInsert_def parseSelectAfterInitial_def
  by (auto intro!: fuelLe_thenP fuelLe_thenP_same parseIdentList_fuel commaLoop_fuel
      parseValuesRow_fuel parseSelect_fuel)

lemma parseSetItem_fuel:
  "k \<le> k' \<Longrightarrow> fuelLe (parseSetItem k tk) (parseSetItem k' tk)"
  unfolding parseSetItem_def
  by (auto intro!: fuelLe_thenP fuelLe_thenP_same parseValue_fuel parseExpr_fuel)

lemma parseUpdate_fuel:
  "k \<le> k' \<Longrightarrow> fuelLe (parseUpdate k tk) (parseUpdate k' tk)"
  unfolding parseUpdate_def
  by (auto intro!: fuelLe_thenP fuelLe_thenP_same commaLoop_fuel parseSetItem_fuel optClause_fuel
      parseExpr_fuel)

lemma parseDelete_fuel:
  "k \<le> k' \<Longrightarrow> fuelLe (parseDelete k tk) (parseDelete k' tk)"
  unfolding parseDelete_def
  by (auto intro!: fuelLe_thenP fuelLe_thenP_same optClause_fuel parseExpr_fuel)

lemma parseStatement_fuel:
  "k \<le> k' \<Longrightarrow> fuelLe (parseStatement k tk) (parseStatement k' tk)"
  unfolding parseStatement_def
  by (auto intro!: fuelLe_thenP fuelLe_thenP_same parseSelect_fuel parseInsert_fuel
      parseUpdate_fuel parseDelete_fuel simp: Let_def)

text \<open>A statement that parses with some bound parses to the same tree with any greater
  bound, and the command of \<open>query\<close> is then the same.\<close>

lemma parseStatement_more_fuel:
  "parseStatement k tk = Inr r \<Longrightarrow> k \<le> k' \<Longrightarrow> parseStatement k' tk = Inr r"
  using parseStatement_fuel [of k k' tk] by (simp add: fuelLe_def)

lemma parseStatement_same_error:
  "parseStatement k tk = Inl e \<Longrightarrow> e \<noteq> OutOfFuel \<Longrightarrow> k \<le> k' \<Longrightarrow> parseStatement k' tk = Inl e"
  using parseStatement_fuel [of k k' tk] by (simp add: fuelLe_def)

lemma query_more_fuel:
  assumes "parseStatement k (Tokenizer sql) \<noteq> Inl OutOfFuel" and "k \<le> k'"
  shows "query k' ns tables fns cl ses sql nm ps = query k ns tables fns cl ses sql nm ps"
  using parseStatement_fuel [OF assms(2), of "Tokenizer sql"] assms(1)
  by (simp add: query_def fuelLe_def)


subsection \<open>Positional parameters\<close>

lemma bindValues_replicate:
  "posIndex b \<le> length (positional b) \<Longrightarrow>
   bindValues b (replicate n ParamPos) =
     (if posIndex b + n \<le> length (positional b)
      then Inr (take n (drop (posIndex b) (positional b)), b\<lparr>posIndex := posIndex b + n\<rparr>)
      else Inl (Error ''Not enough positional params''))"
proof (induction n arbitrary: b)
  case 0
  then show ?case by simp
next
  case (Suc n)
  show ?case
  proof (cases "posIndex b < length (positional b)")
    case False
    then show ?thesis using Suc.prems by simp
  next
    case True
    let ?b1 = "b\<lparr>posIndex := posIndex b + 1\<rparr>"
    have step: "bindValue b ParamPos = Inr (positional b ! posIndex b, ?b1)"
      using True by simp
    have "take (Suc n) (drop (posIndex b) (positional b)) =
          positional b ! posIndex b # take n (drop (Suc (posIndex b)) (positional b))"
      using True by (simp add: take_Suc_conv_app_nth Cons_nth_drop_Suc [symmetric])
    then show ?thesis
      using True step Suc.IH [of ?b1] by (simp del: bindValue.simps)
  qed
qed

text \<open>
  The cursor.  A bind of a marker returns \<open>positionalParams[cursor]\<close> and advances the
  cursor, and raises \<open>Not enough positional params\<close> when the cursor has reached the number
  of supplied values; \<open>n\<close> markers bound in sequence (the items of an \<open>IN\<close> list) receive the
  first \<open>n\<close> values, or raise when fewer are supplied.
\<close>

lemma positional_cursor:
  "bindValue b ParamPos =
     (if posIndex b < length (positional b)
      then Inr (positional b ! posIndex b, b\<lparr>posIndex := posIndex b + 1\<rparr>)
      else Inl (Error ''Not enough positional params''))
   \<and> bindValue (ParamBinder nm ps) (Array (replicate n ParamPos)) =
     (if n \<le> length ps
      then Inr (JArr (take n ps), \<lparr>named = nm, positional = ps, posIndex = n\<rparr>)
      else Inl (Error ''Not enough positional params''))"
  by (simp add: bindValues_replicate ParamBinder_def)

text \<open>
  Where the compiler meets the markers in source order, the values are bound in source
  order: the values of an \<open>INSERT\<close>, the predicates of a \<open>WHERE\<close> clause.
\<close>

lemma positional_source_order_insert_where:
  "query 20 (\<lambda>n. []) (map_of [(''t'', \<lparr>m_name = ''t'', m_collection = ''t''\<rparr>)]) buildBuiltinFunctions False False
     ''INSERT INTO t (a, b) VALUES (?, ?)'' Map.empty [JStr ''first'', JStr ''second''] =
   Inr (InsertMany ''t'' [JObj [(''a'', JStr ''first''), (''b'', JStr ''second'')]])
   \<and> query 20 (\<lambda>n. []) (map_of [(''t'', \<lparr>m_name = ''t'', m_collection = ''t''\<rparr>)]) buildBuiltinFunctions False False
     ''DELETE FROM t WHERE a = ? AND b = ?'' Map.empty [JStr ''first'', JStr ''second''] =
   Inr (DeleteMany ''t'' (JObj [(''$and'', JArr [JObj [(''t.a'', JStr ''first'')], JObj [(''t.b'', JStr ''second'')]])]))"
  by code_simp

text \<open>
  \<open>_execUpdate\<close> builds the filter of the \<open>WHERE\<close> clause before the update of the \<open>SET\<close>
  list, and \<open>_execSelect\<close> the \<open>$match\<close> stage of the \<open>WHERE\<close> clause before the
  projection of the select list.  With one marker in each, the marker of the \<open>WHERE\<close>
  clause, the second in the source, receives the first value.
\<close>

lemma update_binds_where_first:
  "execUpdate ns tables
        \<lparr>upd_table = tbl,
           upd_set = [\<lparr>set_column = Field None c None, set_value = ParamPos\<rparr>],
           upd_where = Some (Binary ''='' (Field None f None) ParamPos)\<rparr>
        (ParamBinder nm (v0 # v1 # vs)) =
     (case getCollection tables (t_name tbl) of
        Inl e \<Rightarrow> Inl e
      | Inr col \<Rightarrow>
          Inr (UpdateMany col
                 (JObj [(dropLeadingDot (orElse None (t_name tbl) @ ''.'' @ f), v0)])
                 (JObj [(''$set'', JObj (objSet [] c v1))])))"
  by (simp add: execUpdate_def buildMatchOpt_def buildUpdate_def expr_name_def qualifyField_Field
      ParamBinder_def split: sum.splits)

lemma select_binds_where_first:
  "execSelect ns tables fns
        \<lparr>sel_columns = [\<lparr>s_expr = ParamPos, s_alias = Some (x # xs)\<rparr>],
           sel_from = main, sel_joins = [],
           sel_where = Some (Binary ''='' (Field None f None) ParamPos),
           sel_groupBy = [], sel_having = None, sel_orderBy = [],
           sel_limit = None, sel_offset = None\<rparr>
        (ParamBinder nm (v0 # v1 # vs)) =
     (case getCollection tables (t_name main) of
        Inl e \<Rightarrow> Inl e
      | Inr col \<Rightarrow>
          Inr (col,
               [JObj [(''$match'', JObj [(dropLeadingDot (orElse None (orElse (t_alias main) (t_name main)) @ ''.'' @ f), v0)])],
                JObj [(''$project'', JObj (objSet [] (x # xs) v1))]],
               \<lparr>named = nm, positional = v0 # v1 # vs, posIndex = 2\<rparr>))"
  by (simp add: execSelect_def whereStage_def projectStage_def isSelectStar_def sortStage_def
      pageStages_def Number_isFinite_def qualifyField_Field ParamBinder_def orElse_def
      split: sum.splits)

text \<open>
  A marker that the compiler never binds consumes no value and raises nothing: the key of
  an \<open>ORDER BY\<close> item is taken from the node without binding it.
\<close>

lemma unbound_marker_needs_no_value:
  "query 20 (\<lambda>n. []) (map_of [(''t'', \<lparr>m_name = ''t'', m_collection = ''t''\<rparr>)]) buildBuiltinFunctions False False
     ''SELECT * FROM t AS u ORDER BY ?'' Map.empty [] =
   Inr (Aggregate ''t'' [JObj [(''$sort'', JObj [(''expr'', JNum (Fin 1))])]])"
  by code_simp

text \<open>
  Claim C1 at \<open>UPDATE t SET a = ? WHERE b = ?\<close> with the values \<open>first\<close> and \<open>second\<close>.  The
  first marker in source order is the one of the \<open>SET\<close> list; the claim has \<open>a\<close> set to
  \<open>first\<close> for the rows where \<open>b\<close> is \<open>second\<close>.  The code sets \<open>a\<close> to \<open>second\<close> for the rows
  where \<open>b\<close> is \<open>first\<close>.  In \<open>SELECT ? AS x FROM t AS u WHERE a = ?\<close> likewise the marker of
  the select list is bound to the second value and the marker of the \<open>WHERE\<close> clause to
  the first.
\<close>

theorem positional_where_bound_first:
  "query 20 (\<lambda>n. []) (map_of [(''t'', \<lparr>m_name = ''t'', m_collection = ''t''\<rparr>)]) buildBuiltinFunctions False False
     ''UPDATE t SET a = ? WHERE b = ?'' Map.empty [JStr ''first'', JStr ''second''] =
   Inr (UpdateMany ''t'' (JObj [(''t.b'', JStr ''first'')]) (JObj [(''$set'', JObj [(''a'', JStr ''second'')])]))
   \<and> query 20 (\<lambda>n. []) (map_of [(''t'', \<lparr>m_name = ''t'', m_collection = ''t''\<rparr>)]) buildBuiltinFunctions False False
     ''SELECT ? AS x FROM t AS u WHERE a = ?'' Map.empty [JStr ''first'', JStr ''second''] =
   Inr (Aggregate ''t''
     [JObj [(''$match'', JObj [(''u.a'', JStr ''first'')])],
      JObj [(''$project'', JObj [(''x'', JStr ''second'')])]])"
  by code_simp

subsection \<open>The order of the stages\<close>

lemma whereStage_kinds:
  "whereStage ns ast b p = Inr (p', b') \<Longrightarrow>
   map stageKind p' = map stageKind p @ (if sel_where ast = None then [] else [''$match''])"
  by (auto simp: whereStage_def stageKind_def split: option.splits sum.splits)

lemma execJoins_kinds:
  "execJoins tables main js p = Inr p' \<Longrightarrow>
   map stageKind p' = map stageKind p @ concat (map (\<lambda>j. [''$lookup'', ''$unwind'']) js)"
proof (induction js arbitrary: p)
  case Nil
  then show ?case by simp
next
  case (Cons j js)
  from Cons.prems obtain p1 where
    p1: "execJoins tables main js p1 = Inr p'"
    and k: "map stageKind p1 = map stageKind p @ [''$lookup'', ''$unwind'']"
    by (auto simp: stageKind_def Let_def split: if_splits option.splits expr.splits sum.splits)
  from Cons.IH [OF p1] k show ?case by simp
qed

lemma groupStages_kinds:
  "groupStages fns ast b p = Inr (p', b') \<Longrightarrow>
   map stageKind p' = map stageKind p @ [''$group''] @ (if sel_having ast = None then [] else [''$match'']) @ [''$project'']"
  by (auto simp: groupStages_def stageKind_def Let_def split: option.splits sum.splits)

lemma projectStage_kinds:
  "projectStage fns ast b p = Inr (p', b') \<Longrightarrow>
   map stageKind p' = map stageKind p @ (if isSelectStar (sel_columns ast) then [] else [''$project''])"
  by (auto simp: projectStage_def stageKind_def split: if_splits sum.splits)

lemma sortStage_kinds:
  "map stageKind (sortStage ast p) = map stageKind p @ (if sel_orderBy ast = [] then [] else [''$sort''])"
  by (simp add: sortStage_def stageKind_def)

lemma pageStages_kinds:
  "map stageKind (pageStages ast p) =
     map stageKind p
     @ (case sel_offset ast of Some (Fin r) \<Rightarrow> [''$skip''] | _ \<Rightarrow> [])
     @ (case sel_limit ast of Some (Fin r) \<Rightarrow> [''$limit''] | _ \<Rightarrow> [])"
  by (simp add: pageStages_def stageKind_def Number_isFinite_def Let_def split: option.splits number.splits)

text \<open>
  Claim C2, as amended.  The operators of the stages of a compiled \<open>SELECT\<close> are, in this
  order: \<open>$match\<close> when \<open>WHERE\<close> is present; \<open>$lookup\<close> and \<open>$unwind\<close> for each join, in
  the order of the joins; with a \<open>GROUP BY\<close>, \<open>$group\<close>, then \<open>$match\<close> when \<open>HAVING\<close> is
  present, then \<open>$project\<close>, and without one a single \<open>$project\<close> unless the select list is
  the single wildcard; \<open>$sort\<close> when \<open>ORDER BY\<close> is present; \<open>$skip\<close> exactly when the offset
  is a present finite number and then \<open>$limit\<close> exactly when the limit is one.
\<close>

theorem select_stage_order:
  assumes "execSelect ns tables fns ast b = Inr (col, pipeline, b')"
  shows "map stageKind pipeline =
      (if sel_where ast = None then [] else [''$match''])
    @ concat (map (\<lambda>j. [''$lookup'', ''$unwind'']) (sel_joins ast))
    @ (if sel_groupBy ast \<noteq> []
       then [''$group''] @ (if sel_having ast = None then [] else [''$match'']) @ [''$project'']
       else if isSelectStar (sel_columns ast) then [] else [''$project''])
    @ (if sel_orderBy ast = [] then [] else [''$sort''])
    @ (case sel_offset ast of Some (Fin r) \<Rightarrow> [''$skip''] | _ \<Rightarrow> [])
    @ (case sel_limit ast of Some (Fin r) \<Rightarrow> [''$limit''] | _ \<Rightarrow> [])"
proof -
  from assms obtain p1 b1 p2 p3 where
    w: "whereStage ns ast b [] = Inr (p1, b1)"
    and j: "execJoins tables (sel_from ast) (sel_joins ast) p1 = Inr p2"
    and g: "(if sel_groupBy ast \<noteq> [] then groupStages fns ast b1 p2 else projectStage fns ast b1 p2) = Inr (p3, b')"
    and p: "pipeline = pageStages ast (sortStage ast p3)"
    by (auto simp: execSelect_def Let_def split: sum.splits)
  have k1: "map stageKind p1 = (if sel_where ast = None then [] else [''$match''])"
    using whereStage_kinds [OF w] by simp
  have k2: "map stageKind p2 = map stageKind p1 @ concat (map (\<lambda>j. [''$lookup'', ''$unwind'']) (sel_joins ast))"
    by (rule execJoins_kinds [OF j])
  have k3: "map stageKind p3 = map stageKind p2 @
      (if sel_groupBy ast \<noteq> []
       then [''$group''] @ (if sel_having ast = None then [] else [''$match'']) @ [''$project'']
       else if isSelectStar (sel_columns ast) then [] else [''$project''])"
  proof (cases "sel_groupBy ast \<noteq> []")
    case True
    with g have "groupStages fns ast b1 p2 = Inr (p3, b')" by simp
    from groupStages_kinds [OF this] True show ?thesis by simp
  next
    case False
    with g have "projectStage fns ast b1 p2 = Inr (p3, b')" by simp
    from projectStage_kinds [OF this] False show ?thesis by simp
  qed
  show ?thesis
    unfolding p pageStages_kinds sortStage_kinds k3 k2 k1 by simp
qed

text \<open>The sample statement has every clause: nine stages.\<close>

theorem select_stage_order_witness:
  "execSelect (\<lambda>n. []) sampleTables buildBuiltinFunctions sampleSelect (ParamBinder Map.empty []) =
     Inr (''t'', samplePipeline, ParamBinder Map.empty [])
   \<and> map stageKind samplePipeline =
       [''$match'', ''$lookup'', ''$unwind'', ''$group'', ''$match'', ''$project'', ''$sort'', ''$skip'', ''$limit'']"
  using select_stage_order [OF sampleSelect_lowered] sampleSelect_lowered
  by (simp add: sampleSelect_def)

lemma five_halves_not_integer: "(5 / 2 :: rat) \<notin> \<int>"
proof
  assume "(5 / 2 :: rat) \<in> \<int>"
  then obtain z :: int where "(5 / 2 :: rat) = of_int z" by (auto elim: Ints_cases)
  then have "(5 :: rat) = of_int (2 * z)" by simp
  then have "(5 :: int) = 2 * z" by (metis of_int_eq_iff of_int_numeral)
  then show False by presburger
qed

text \<open>
  Claim C2 as stated fails where it says integer.  \<open>LIMIT 2.5\<close> is a number token; the
  limit is the finite number 5/2, which is not an integer, and the \<open>$limit\<close> stage is there.
\<close>

theorem fractional_limit_counterexample:
  "query 20 (\<lambda>n. []) (map_of [(''t'', \<lparr>m_name = ''t'', m_collection = ''t''\<rparr>)]) buildBuiltinFunctions False False
     ''SELECT * FROM t AS u LIMIT 2.5'' Map.empty [] =
   Inr (Aggregate ''t'' [JObj [(''$limit'', JNum (Fin (5 / 2)))]])
   \<and> (5 / 2 :: rat) \<notin> \<int>"
proof -
  have "query 20 (\<lambda>n. []) (map_of [(''t'', \<lparr>m_name = ''t'', m_collection = ''t''\<rparr>)]) buildBuiltinFunctions False False
     ''SELECT * FROM t AS u LIMIT 2.5'' Map.empty [] =
   Inr (Aggregate ''t'' [JObj [(''$limit'', JNum (Fin (5 / 2)))]])"
    by code_simp
  with five_halves_not_integer show ?thesis by simp
qed

subsection \<open>HAVING\<close>

lemma buildHaving_field:
  assumes "op \<in> set comparisonOps"
  shows "buildHaving (Binary op (Field t n a) (Number x)) b =
     Inr (JObj [(orElse a n,
            if op = ''='' then JNum x
            else JObj [(if op = ''>'' then ''$gt'' else if op = ''>='' then ''$gte''
                        else if op = ''<'' then ''$lt'' else if op = ''<='' then ''$lte''
                        else ''$ne'', JNum x)])], b)"
proof -
  from assms consider "op = ''=''" | "op = ''!=''" | "op = ''<>''" | "op = ''>''"
    | "op = ''>=''" | "op = ''<''" | "op = ''<=''"
    unfolding comparisonOps_def by fastforce
  then show ?thesis
  proof cases
    case 1 then show ?thesis by (simp add: buildHaving_def projectKey_def)
  next
    case 2 then show ?thesis by (simp add: buildHaving_def projectKey_def)
  next
    case 3 then show ?thesis by (simp add: buildHaving_def projectKey_def)
  next
    case 4 then show ?thesis by (simp add: buildHaving_def projectKey_def)
  next
    case 5 then show ?thesis by (simp add: buildHaving_def projectKey_def)
  next
    case 6 then show ?thesis by (simp add: buildHaving_def projectKey_def)
  next
    case 7 then show ?thesis by (simp add: buildHaving_def projectKey_def)
  qed
qed

text \<open>The errors of \<open>buildHaving\<close>: its own two, or the error of binding the right operand.\<close>

lemma buildHaving_errors:
  assumes "buildHaving e b = Inl err"
  shows "err = Error ''Unsupported HAVING'' \<or> err = Error ''Unsupported HAVING operator''
         \<or> (\<exists>op l r. e = Binary op l r \<and> bindValue b r = Inl err)"
  using assms
  by (auto simp: buildHaving_def Let_def split: expr.splits sum.splits if_splits)

text \<open>
  Claim C3, as amended.  \<open>buildHaving\<close> is given the clause and the binder only: it makes
  no check against the \<open>GROUP BY\<close> list or the aliases of the select list.  In a grouped
  \<open>SELECT\<close>, a \<open>HAVING\<close> clause that compares a field with a number literal by one of
  the seven comparison operators (\<open>=\<close>, \<open>!=\<close> and the order comparisons) adds, between the group stage and the
  re-projection that the statement has without the clause, a \<open>$match\<close> stage keyed by the
  name of the field, whatever the field is; no error is raised.
\<close>

theorem having_not_checked:
  assumes "op \<in> set comparisonOps"
    and "sel_having ast = Some (Binary op (Field t n a) (Number x))"
    and "groupStages fns (ast\<lparr>sel_having := None\<rparr>) b p = Inr (p @ [g, pr], b')"
  shows "groupStages fns ast b p =
     Inr (p @ [g,
               JObj [(''$match'', JObj [(orElse a n,
                  if op = ''='' then JNum x
                  else JObj [(if op = ''>'' then ''$gt'' else if op = ''>='' then ''$gte''
                              else if op = ''<'' then ''$lt'' else if op = ''<='' then ''$lte''
                              else ''$ne'', JNum x)])])],
               pr], b')"
proof -
  from assms(3) obtain idExpr b1 grp where
    ids: "groupIds (sel_groupBy ast) (sel_from ast) (sel_joins ast) b fns [] = Inr (idExpr, b1)"
    and aggs: "groupAggs (sel_columns ast) (sel_from ast) (sel_joins ast) b1 [(''_id'', JObj idExpr)] = Inr (grp, b')"
    and g: "g = JObj [(''$group'', JObj grp)]"
    and pr: "pr = JObj [(''$project'', JObj (projectAggs (sel_columns ast) (projectIds (map fst idExpr) [])))]"
    by (auto simp: groupStages_def Let_def split: sum.splits)
  show ?thesis
    unfolding groupStages_def Let_def
    by (simp only: ids aggs assms(2) buildHaving_field [OF assms(1)] g pr
        sum.case prod.case option.case append_Cons append_Nil append_assoc)
qed

text \<open>The sample statement groups by \<open>city\<close> and aggregates under \<open>n\<close>; the field \<open>b\<close>
  is neither.\<close>

lemma sampleSelect_grouped:
  "groupStages buildBuiltinFunctions (sampleSelect\<lparr>sel_having := None\<rparr>) (ParamBinder Map.empty []) [] =
     Inr ([] @ [sampleGroup, sampleProject], ParamBinder Map.empty [])"
  by (simp add: groupStages_def sample_defs)

theorem having_not_checked_witness:
  "''>'' \<in> set comparisonOps
   \<and> groupStages buildBuiltinFunctions (sampleSelect\<lparr>sel_having := None\<rparr>) (ParamBinder Map.empty []) [] =
       Inr ([sampleGroup, sampleProject], ParamBinder Map.empty [])
   \<and> groupStages buildBuiltinFunctions
        (sampleSelect\<lparr>sel_having := Some (Binary ''>'' (Field None ''b'' None) (Number (Fin 1)))\<rparr>)
        (ParamBinder Map.empty []) [] =
       Inr ([sampleGroup, JObj [(''$match'', JObj [(''b'', JObj [(''$gt'', JNum (Fin 1))])])], sampleProject],
            ParamBinder Map.empty [])"
proof -
  have op: "''>'' \<in> set comparisonOps" by (simp add: comparisonOps_def)
  have hv: "sel_having (sampleSelect\<lparr>sel_having := Some (Binary ''>'' (Field None ''b'' None) (Number (Fin 1)))\<rparr>)
      = Some (Binary ''>'' (Field None ''b'' None) (Number (Fin 1)))" by simp
  have gr: "groupStages buildBuiltinFunctions
      (sampleSelect\<lparr>sel_having := Some (Binary ''>'' (Field None ''b'' None) (Number (Fin 1)))\<rparr>\<lparr>sel_having := None\<rparr>)
      (ParamBinder Map.empty []) [] = Inr ([] @ [sampleGroup, sampleProject], ParamBinder Map.empty [])"
    using sampleSelect_grouped by simp
  from having_not_checked [OF op hv gr] op sampleSelect_grouped show ?thesis
    by (simp add: orElse_def)
qed

text \<open>
  Claim C3 as stated fails.  The statement groups by \<open>a\<close> and aggregates under \<open>n\<close>; its
  \<open>HAVING\<close> clause names \<open>b\<close>.  It compiles, with a filter keyed by \<open>b\<close>.
\<close>

theorem having_ungrouped_field_counterexample:
  "query 20 (\<lambda>n. []) (map_of [(''t'', \<lparr>m_name = ''t'', m_collection = ''t''\<rparr>)]) buildBuiltinFunctions False False
     ''SELECT a AS a, COUNT(*) AS n FROM t AS u GROUP BY a HAVING b > 1'' Map.empty [] =
   Inr (Aggregate ''t''
     [JObj [(''$group'', JObj [(''_id'', JObj [(''a'', JStr ''$u.a'')]), (''n'', JObj [(''$sum'', JNum (Fin 1))])])],
      JObj [(''$match'', JObj [(''b'', JObj [(''$gt'', JNum (Fin 1))])])],
      JObj [(''$project'', JObj [(''a'', JStr ''$_id.a''), (''n'', JNum (Fin 1))])]])"
  by code_simp

subsection \<open>LIKE\<close>





subsection \<open>COUNT\<close>

lemma toUpper_COUNT_isAggregate: "toUpperCase name = ''COUNT'' \<Longrightarrow> isAggregate name"
  by (simp add: isAggregate_def)

text \<open>
  Claim C5.  An aggregate whose name is \<open>COUNT\<close> in any letter case compiles to
  \<open>{ $sum: 1 }\<close> when it has no argument and when its argument is \<open>*\<close>.  With any other
  argument it compiles to \<open>{ $sum: { $cond: [{ $gt: [v, null] }, 1, 0] } }\<close>, where \<open>v\<close> is
  the compiled argument: for a field, \<open>$\<close> and the path of the field.  In a grouped
  \<open>SELECT\<close> the compiled aggregate is the field of the group stage under the alias of the
  select item, or under the lower-cased name.
\<close>

theorem count_lowering:
  assumes "toUpperCase name = ''COUNT''"
  shows "toMongoAgg (Call name []) main joins b = Inr (JObj [(''$sum'', JNum (Fin 1))], b)
   \<and> toMongoAgg (Call name (All # rest)) main joins b = Inr (JObj [(''$sum'', JNum (Fin 1))], b)
   \<and> toMongoAgg (Call name (Field t n a # rest)) main joins b =
       Inr (JObj [(''$sum'', JObj [(''$cond'',
              JArr [JObj [(''$gt'', JArr [JStr (''$'' @ dropLeadingDot (orElse t (orElse (t_alias main) (t_name main)) @ ''.'' @ n)), JNull])],
                    JNum (Fin 1), JNum (Fin 0)])])], b)
   \<and> (x \<noteq> All \<longrightarrow>
        toMongoAgg (Call name (x # rest)) main joins b =
          (case toMongoExpr x main joins b None of
             Inl e \<Rightarrow> Inl e
           | Inr (v, b1) \<Rightarrow>
               Inr (JObj [(''$sum'', JObj [(''$cond'',
                      JArr [JObj [(''$gt'', JArr [v, JNull])], JNum (Fin 1), JNum (Fin 0)])])], b1)))
   \<and> groupAggs (\<lparr>s_expr = Call name args, s_alias = al\<rparr> # sels) main joins b grp =
        (case toMongoAgg (Call name args) main joins b of
           Inl e \<Rightarrow> Inl e
         | Inr (v, b1) \<Rightarrow> groupAggs sels main joins b1 (objSet grp (orElse al (toLowerCase name)) v))"
  using assms toUpper_COUNT_isAggregate [OF assms]
  by (simp add: toMongoAgg_def toMongoExprArg_def qualifyField_Field exprAlias_def)

text \<open>\<open>count()\<close> and \<open>count(b)\<close> on the table \<open>t\<close>.\<close>

theorem count_lowering_witness:
  "toUpperCase ''count'' = ''COUNT''
   \<and> toMongoAgg (Call ''count'' []) \<lparr>t_name = ''t'', t_alias = None\<rparr> [] (ParamBinder Map.empty []) =
       Inr (JObj [(''$sum'', JNum (Fin 1))], ParamBinder Map.empty [])
   \<and> toMongoAgg (Call ''count'' [Field None ''b'' None]) \<lparr>t_name = ''t'', t_alias = None\<rparr> [] (ParamBinder Map.empty []) =
       Inr (JObj [(''$sum'', JObj [(''$cond'',
              JArr [JObj [(''$gt'', JArr [JStr ''$t.b'', JNull])], JNum (Fin 1), JNum (Fin 0)])])],
            ParamBinder Map.empty [])"
proof -
  have up: "toUpperCase ''count'' = ''COUNT''"
    by (simp add: toUpperCase_def upperChar_def lowerLetters_def upperLetters_def)
  from count_lowering [OF up, where main = "\<lparr>t_name = ''t'', t_alias = None\<rparr>" and joins = "[]"
      and b = "ParamBinder Map.empty []" and t = None and n = "''b''" and a = None and rest = "[]"] up
  show ?thesis by (simp add: orElse_def dropLeadingDot_def)
qed

subsection \<open>Joins\<close>










subsection \<open>BETWEEN\<close>

text \<open>With literal bounds the filter is the inclusive range on the two values.\<close>

lemma between_literal_bounds:
  "buildMatch ns (Binary ''BETWEEN'' (Field t n a) (Between (Number x) (Number y))) b dt =
     Inr (JObj [(dropLeadingDot (orElse t dt @ ''.'' @ n), JObj [(''$gte'', JNum x), (''$lte'', JNum y)])], b)"
  by (simp add: qualifyField_Field bindValueOpt_def)

text \<open>
  With two positional bounds each bound is bound twice: once when \<open>val\<close> is bound from the
  whole right operand, and again in the \<open>BETWEEN\<close> case.  The predicate consumes four
  values and the filter holds the third and the fourth.
\<close>

lemma between_positional_bounds_bound_twice:
  "buildMatch ns (Binary ''BETWEEN'' (Field t n a) (Between ParamPos ParamPos)) b dt =
     (if posIndex b + 4 \<le> length (positional b)
      then Inr (JObj [(dropLeadingDot (orElse t dt @ ''.'' @ n),
                  JObj [(''$gte'', positional b ! (posIndex b + 2)), (''$lte'', positional b ! (posIndex b + 3))])],
                b\<lparr>posIndex := posIndex b + 4\<rparr>)
      else Inl (Error ''Not enough positional params''))"
  by (simp add: qualifyField_Field bindValueOpt_def numeral_Bit0 numeral_3_eq_3)

text \<open>
  Claim C7 at \<open>a BETWEEN ? AND ?\<close>.  With the two values 1 and 10 the compilation raises
  \<open>Not enough positional params\<close>, where the claim has the filter from 1 to 10; with four
  values the filter is the range from the third to the fourth.
\<close>

theorem between_positional_bounds:
  "query 20 (\<lambda>n. []) (map_of [(''t'', \<lparr>m_name = ''t'', m_collection = ''t''\<rparr>)]) buildBuiltinFunctions False False
     ''SELECT * FROM t AS u WHERE a BETWEEN ? AND ?'' Map.empty [JNum (Fin 1), JNum (Fin 10)] =
   Inl (Error ''Not enough positional params'')
   \<and> query 20 (\<lambda>n. []) (map_of [(''t'', \<lparr>m_name = ''t'', m_collection = ''t''\<rparr>)]) buildBuiltinFunctions False False
     ''SELECT * FROM t AS u WHERE a BETWEEN ? AND ?'' Map.empty
     [JNum (Fin 1), JNum (Fin 10), JNum (Fin 20), JNum (Fin 30)] =
   Inr (Aggregate ''t''
     [JObj [(''$match'', JObj [(''u.a'', JObj [(''$gte'', JNum (Fin 20)), (''$lte'', JNum (Fin 30))])])]])"
  by code_simp

subsection \<open>ROUND\<close>

text \<open>\<open>ROUND\<close> of one field compiles to the rounding of the text \<open>$$_internal\<close>, in which
  the field does not occur.\<close>

lemma round_one_argument:
  "toMongoExpr (Call ''ROUND'' [Field t n a]) main joins b (Some buildBuiltinFunctions) =
     Inr (JObj [(''$round'', JArr [JStr ''$$_internal'', JNum (Fin 0)])], b)"
  by (simp add: buildBuiltinFunctions_def toUpperCase_def upperChar_def lowerLetters_def upperLetters_def
      fn_ROUND_def arg_def qualifyField_Field)

text \<open>
  Claim C8 at \<open>ROUND(price)\<close>.  The projection rounds \<open>$$_internal\<close> to zero places, where
  the claim has the compiled argument \<open>$products.price\<close>; with a second argument the
  compiled argument is the one rounded.
\<close>

theorem round_without_decimals:
  "query 20 (\<lambda>n. []) (map_of [(''products'', \<lparr>m_name = ''products'', m_collection = ''products''\<rparr>)])
     buildBuiltinFunctions False False ''SELECT ROUND(price) AS p FROM products'' Map.empty [] =
   Inr (Aggregate ''products''
     [JObj [(''$project'', JObj [(''p'', JObj [(''$round'', JArr [JStr ''$$_internal'', JNum (Fin 0)])])])]])
   \<and> query 20 (\<lambda>n. []) (map_of [(''products'', \<lparr>m_name = ''products'', m_collection = ''products''\<rparr>)])
     buildBuiltinFunctions False False ''SELECT ROUND(price, 2) AS p FROM products'' Map.empty [] =
   Inr (Aggregate ''products''
     [JObj [(''$project'', JObj [(''p'', JObj [(''$round'', JArr [JStr ''$products.price'', JNum (Fin 2)])])])]])"
  by code_simp

subsection \<open>Unary minus\<close>







subsection \<open>Unterminated string literals\<close>

lemma drop_eq_Cons:
  assumes "drop i s = c # rest"
  shows "i < length s" and "s ! i = c" and "drop (Suc i) s = rest"
proof -
  show lt: "i < length s"
  proof (rule ccontr)
    assume "\<not> i < length s"
    then have "drop i s = []" by simp
    with assms show False by simp
  qed
  from Cons_nth_drop_Suc [OF lt] assms show "s ! i = c" and "drop (Suc i) s = rest" by simp_all
qed

lemma readString_step_plain:
  "i < length s \<Longrightarrow> s ! i \<noteq> CHR 0x5C \<Longrightarrow> s ! i \<noteq> q \<Longrightarrow>
   readString s q i val = readString s q (Suc i) (val @ [s ! i])"
  by (subst readString.simps) (simp add: Let_def)

lemma readString_step_escape:
  "i < length s \<Longrightarrow> s ! i = CHR 0x5C \<Longrightarrow>
   readString s q i val =
     readString s q (Suc (Suc i)) (val @ (case charAt s (Suc i) of Some d \<Rightarrow> [d] | None \<Rightarrow> ''undefined''))"
  by (subst readString.simps) (simp add: Let_def)

lemma readString_end: "length s \<le> i \<Longrightarrow> readString s q i val = (val, i)"
  by (subst readString.simps) simp

lemma readString_unterminated:
  "unterminated q cs \<Longrightarrow> drop i s = cs \<Longrightarrow> i \<le> length s \<Longrightarrow> q \<noteq> CHR 0x5C \<Longrightarrow>
   readString s q i val =
     (val @ resolved cs @ (if endsInEscape cs then ''undefined'' else []),
      if endsInEscape cs then length s + 1 else length s)"
proof (induction q cs arbitrary: i val rule: unterminated.induct)
  case (1 q)
  then have "i = length s" by simp
  then show ?case by (simp add: readString_end)
next
  case (2 q c)
  from drop_eq_Cons [OF "2.prems"(2)] have lt: "i < length s" and c: "s ! i = c"
    and tl: "drop (Suc i) s = []" by simp_all
  from tl have len: "length s = Suc i" using lt by simp
  show ?case
  proof (cases "c = CHR 0x5C")
    case True
    have "readString s q i val = readString s q (Suc (Suc i)) (val @ ''undefined'')"
      using readString_step_escape [of i s q val] lt c True len by (simp add: charAt_def)
    also have "\<dots> = (val @ ''undefined'', Suc (Suc i))"
      using len by (simp add: readString_end)
    finally show ?thesis using True len by simp
  next
    case False
    with "2.prems"(1) have "c \<noteq> q" by simp
    then have "readString s q i val = readString s q (Suc i) (val @ [c])"
      using readString_step_plain [of i s q val] lt c False by simp
    also have "\<dots> = (val @ [c], Suc i)"
      using len by (simp add: readString_end)
    finally show ?thesis using False len by simp
  qed
next
  case (3 q c d cs)
  from drop_eq_Cons [OF "3.prems"(2)] have lt: "i < length s" and c: "s ! i = c"
    and tl: "drop (Suc i) s = d # cs" by simp_all
  from drop_eq_Cons [OF tl] have lt2: "Suc i < length s" and d: "s ! Suc i = d"
    and tl2: "drop (Suc (Suc i)) s = cs" by simp_all
  show ?case
  proof (cases "c = CHR 0x5C")
    case True
    with "3.prems"(1) have un: "unterminated q cs" by simp
    have "readString s q i val = readString s q (Suc (Suc i)) (val @ [d])"
      using readString_step_escape [of i s q val] lt c True lt2 d by (simp add: charAt_def)
    also have "\<dots> = ((val @ [d]) @ resolved cs @ (if endsInEscape cs then ''undefined'' else []),
                       if endsInEscape cs then length s + 1 else length s)"
      using "3.IH"(1) [OF True un tl2 _ "3.prems"(4)] lt2 by simp
    finally show ?thesis using True by simp
  next
    case False
    with "3.prems"(1) have nq: "c \<noteq> q" by (cases "c = q") simp_all
    with "3.prems"(1) False have un: "unterminated q (d # cs)" by simp
    have "readString s q i val = readString s q (Suc i) (val @ [c])"
      using readString_step_plain [of i s q val] lt c False nq by simp
    also have "\<dots> = ((val @ [c]) @ resolved (d # cs) @ (if endsInEscape (d # cs) then ''undefined'' else []),
                       if endsInEscape (d # cs) then length s + 1 else length s)"
      using "3.IH"(2) [OF False nq un tl _ "3.prems"(4)] lt by simp
    finally show ?thesis using False by simp
  qed
qed

lemma scanWhile_stop: "j < length s \<Longrightarrow> \<not> P (s ! j) \<Longrightarrow> scanWhile P s j = j"
  by (subst scanWhile.simps) simp

lemma scanWhile_end: "length s \<le> j \<Longrightarrow> scanWhile P s j = j"
  by (subst scanWhile.simps) simp

text \<open>
  An opening quote at position \<open>i\<close> whose literal is unterminated: no error is raised, the
  token is the string of the remaining characters with the escape markers resolved,
  followed by the text \<open>undefined\<close> when the input ends in a lone escape marker, and the next
  token is the end of the input.
\<close>

lemma unterminated_string_token:
  assumes "i < length s" and "s ! i = q" and "q = CHR 0x27 \<or> q = CHR 0x22"
    and "unterminated q (drop (Suc i) s)"
    and "j = (if endsInEscape (drop (Suc i) s) then length s + 1 else length s)"
  shows "tk_next \<lparr>tk_input = s, tk_i = i, tk_peeked = None\<rparr> =
           Inr (T_string (resolved (drop (Suc i) s)
                          @ (if endsInEscape (drop (Suc i) s) then ''undefined'' else [])),
                \<lparr>tk_input = s, tk_i = j, tk_peeked = None\<rparr>)
       \<and> tk_next \<lparr>tk_input = s, tk_i = j, tk_peeked = None\<rparr> =
           Inr (T_eof, \<lparr>tk_input = s, tk_i = j, tk_peeked = None\<rparr>)"
proof -
  from assms(3) have q: "q \<noteq> CHR 0x5C" "\<not> isSpace q" "q \<noteq> CHR ''-''" "q \<noteq> CHR ''/''"
    by (auto simp: isSpace_def)
  have sp: "scanWhile isSpace s i = i"
    using assms(1,2) q by (intro scanWhile_stop) auto
  have rs: "readString s q (i + 1) [] =
      (resolved (drop (Suc i) s) @ (if endsInEscape (drop (Suc i) s) then ''undefined'' else []), j)"
    using readString_unterminated [of q "drop (Suc i) s" "Suc i" s "[]"] assms(1,4,5) q by simp
  have 1: "nextToken s i =
      Inr (T_string (resolved (drop (Suc i) s)
                     @ (if endsInEscape (drop (Suc i) s) then ''undefined'' else [])), j)"
    using assms(1,2,3) q sp rs by (subst nextToken.simps) (auto simp: Let_def)
  have "length s \<le> j" using assms(5) by simp
  then have 2: "nextToken s j = Inr (T_eof, j)"
    by (subst nextToken.simps) (simp add: scanWhile_end Let_def)
  from 1 2 show ?thesis by (simp add: tk_next_def)
qed

text \<open>
  Claim C10 at the input \<open>'abc\\<close>, which ends in a lone escape marker.  The remaining
  characters with the escape markers resolved are \<open>abc\<close>; the value of the token is
  \<open>abcundefined\<close>.  No error is raised and the next token is the end of the input.
\<close>

theorem unterminated_string_trailing_escape:
  "tk_next (Tokenizer [CHR 0x27, CHR ''a'', CHR ''b'', CHR ''c'', CHR 0x5C]) =
     Inr (T_string ''abcundefined'',
          \<lparr>tk_input = [CHR 0x27, CHR ''a'', CHR ''b'', CHR ''c'', CHR 0x5C], tk_i = 6, tk_peeked = None\<rparr>)
   \<and> tk_next \<lparr>tk_input = [CHR 0x27, CHR ''a'', CHR ''b'', CHR ''c'', CHR 0x5C], tk_i = 6, tk_peeked = None\<rparr> =
     Inr (T_eof, \<lparr>tk_input = [CHR 0x27, CHR ''a'', CHR ''b'', CHR ''c'', CHR 0x5C], tk_i = 6, tk_peeked = None\<rparr>)
   \<and> unterminated (CHR 0x27) [CHR ''a'', CHR ''b'', CHR ''c'', CHR 0x5C]
   \<and> resolved [CHR ''a'', CHR ''b'', CHR ''c'', CHR 0x5C] = ''abc''"
  by code_simp

subsection \<open>Remarks on the parser\<close>

text \<open>
  The statements of the properties above are parsed by the model of the parser.  Two of
  its traits show in them.  \<open>parseTableRef\<close> and \<open>parseSelectItem\<close> take any identifier that
  follows as the alias, a clause keyword too: without an alias of its own, the table of
  \<open>FROM users WHERE ...\<close> gets the alias \<open>WHERE\<close> and the clause is not parsed.  The join
  loop is entered on the token \<open>JOIN\<close> only, where the type is \<open>INNER\<close>: in \<open>users LEFT JOIN
  orders\<close> the word \<open>LEFT\<close> is the alias of \<open>users\<close>.
\<close>

lemma greedy_alias_takes_keyword:
  "query 20 (\<lambda>n. []) (map_of [(''users'', \<lparr>m_name = ''users'', m_collection = ''users''\<rparr>)])
     buildBuiltinFunctions False False ''SELECT * FROM users WHERE age > 25'' Map.empty [] =
   Inr (Aggregate ''users'' [])"
  by code_simp

lemma left_join_parsed_as_inner:
  "map_sum id fst (parseStatement 20 (Tokenizer ''SELECT * FROM users LEFT JOIN orders o ON o.userId = users._id'')) =
   Inr (SELECT
     \<lparr>sel_columns = [\<lparr>s_expr = All, s_alias = None\<rparr>],
      sel_from = \<lparr>t_name = ''users'', t_alias = Some ''LEFT''\<rparr>,
      sel_joins = [\<lparr>j_type = ''INNER'', j_table = \<lparr>t_name = ''orders'', t_alias = Some ''o''\<rparr>,
                    j_on = Some (Binary ''='' (Field (Some ''o'') ''userId'' None) (Field (Some ''users'') ''_id'' None))\<rparr>],
      sel_where = None, sel_groupBy = [], sel_having = None, sel_orderBy = [],
      sel_limit = None, sel_offset = None\<rparr>)"
  by code_simp

subsection \<open>Remarks on the host language\<close>

text \<open>
  Four traits of the engine that runs the program show in the model.  An assignment to
  the key \<open>__proto__\<close> adds no property: a column or an alias of that name is left out of
  the document.  A named parameter is looked up in the parameter object and in what the
  object inherits: with no parameter given, \<open>:toString\<close> is bound to a built-in function
  and \<open>:id\<close> is missing.  A number literal denotes the nearest double.  The transaction
  statements check the state of the engine first.
\<close>

lemma proto_key_adds_no_property:
  "query 20 (\<lambda>n. []) (map_of [(''t'', \<lparr>m_name = ''t'', m_collection = ''t''\<rparr>)]) buildBuiltinFunctions False False
     ''UPDATE t SET __proto__ = 1, b = 2'' Map.empty [] =
   Inr (UpdateMany ''t'' (JObj []) (JObj [(''$set'', JObj [(''b'', JNum (Fin 2))])]))
   \<and> query 20 (\<lambda>n. []) (map_of [(''t'', \<lparr>m_name = ''t'', m_collection = ''t''\<rparr>)]) buildBuiltinFunctions False False
     ''SELECT 1 AS __proto__ FROM t AS u'' Map.empty [] =
   Inr (Aggregate ''t'' [JObj [(''$project'', JObj [])]])"
  by code_simp

lemma named_parameter_inherited:
  "query 20 (\<lambda>n. []) (map_of [(''t'', \<lparr>m_name = ''t'', m_collection = ''t''\<rparr>)]) buildBuiltinFunctions False False
     ''DELETE FROM t WHERE a = :toString'' Map.empty [] =
   Inr (DeleteMany ''t'' (JObj [(''t.a'', JFunction ''toString'')]))
   \<and> query 20 (\<lambda>n. []) (map_of [(''t'', \<lparr>m_name = ''t'', m_collection = ''t''\<rparr>)]) buildBuiltinFunctions False False
     ''DELETE FROM t WHERE a = :id'' Map.empty [] =
   Inl (Error ''Missing named param :id'')
   \<and> query 20 (\<lambda>n. []) (map_of [(''t'', \<lparr>m_name = ''t'', m_collection = ''t''\<rparr>)]) buildBuiltinFunctions False False
     ''DELETE FROM t WHERE a = :id'' (Map.empty(''id'' \<mapsto> JNum (Fin 7))) [] =
   Inr (DeleteMany ''t'' (JObj [(''t.a'', JNum (Fin 7))]))"
  by code_simp

lemma number_literal_nearest_double:
  "Number_of ''0.1'' = Fin (3602879701896397 / 36028797018963968)
   \<and> Number_of ''2.5'' = Fin (5 / 2)
   \<and> Number_of ''9007199254740993'' = Fin 9007199254740992
   \<and> Number_of ''1.2.3'' = NaN"
  by code_simp

lemma transaction_statements:
  "query 20 (\<lambda>n. []) (map_of [(''t'', \<lparr>m_name = ''t'', m_collection = ''t''\<rparr>)]) buildBuiltinFunctions False False ''BEGIN'' Map.empty [] =
     Inl (Error ''BEGIN requires a Mongo client to create sessions'')
   \<and> query 20 (\<lambda>n. []) (map_of [(''t'', \<lparr>m_name = ''t'', m_collection = ''t''\<rparr>)]) buildBuiltinFunctions True True ''BEGIN'' Map.empty [] = Inl (Error ''Transaction already started'')
   \<and> query 20 (\<lambda>n. []) (map_of [(''t'', \<lparr>m_name = ''t'', m_collection = ''t''\<rparr>)]) buildBuiltinFunctions True False ''BEGIN'' Map.empty [] = Inr Begin
   \<and> query 20 (\<lambda>n. []) (map_of [(''t'', \<lparr>m_name = ''t'', m_collection = ''t''\<rparr>)]) buildBuiltinFunctions True False ''COMMIT'' Map.empty [] = Inl (Error ''No active transaction'')
   \<and> query 20 (\<lambda>n. []) (map_of [(''t'', \<lparr>m_name = ''t'', m_collection = ''t''\<rparr>)]) buildBuiltinFunctions True True ''COMMIT'' Map.empty [] = Inr Commit
   \<and> query 20 (\<lambda>n. []) (map_of [(''t'', \<lparr>m_name = ''t'', m_collection = ''t''\<rparr>)]) buildBuiltinFunctions True False ''ROLLBACK'' Map.empty [] = Inl (Error ''No active transaction'')
   \<and> query 20 (\<lambda>n. []) (map_of [(''t'', \<lparr>m_name = ''t'', m_collection = ''t''\<rparr>)]) buildBuiltinFunctions True True ''ROLLBACK'' Map.empty [] = Inr Rollback"
  by code_simp

end
